theory Spec2Isabelle
  imports Main "HOL-Library.Word"
begin

section \<open>Data model\<close>

text \<open>
  A \<^verbatim>\<open>Uint8Array\<close> (or Node \<^verbatim>\<open>Buffer\<close>) is a list of bytes. JavaScript strings are
  Isabelle strings; the only characters the code inspects are the ASCII digits and the
  apostrophe.
\<close>

type_synonym bytes = "8 word list"

text \<open>
  The source raises \<^verbatim>\<open>Error\<close> objects that carry a message only. Every raise of the
  source is one value \<open>Error kind message\<close>, with the message of the source and the
  kind under which the specification lists that failure. The specification lists the
  failures of \<^verbatim>\<open>deriveChildKey\<close> for a path of the wrong type, an unsupported curve, a
  missing node and a hardened index without a private key under \<open>InvalidParameters\<close>
  (section 4.3). \<open>OtherFailure\<close> stands for any exception outside the kinds of the
  specification (for instance one raised by the cryptography provider).
\<close>

datatype error_kind =
    InvalidParameters
  | InvalidIndex
  | InvalidPrivateKey
  | InvalidPublicKey
  | UnsupportedCurve
  | OtherFailure

datatype error = Error error_kind string

text \<open>
  Modelled from the spec: \<^verbatim>\<open>Curve\<close> of \<^verbatim>\<open>../curves\<close>, the Curve Descriptor, with the
  members the code reads. \<open>curve_n\<close> is \<^verbatim>\<open>curve.curve.n\<close>, the order of the curve.
  \<open>getPublicKey\<close> belongs to the cryptography provider; its second argument is the
  optional \<^verbatim>\<open>compressed\<close> flag (\<open>None\<close> when the call omits it), and it may throw.
\<close>

record Curve =
  name :: string
  secret :: bytes
  curve_n :: nat
  publicKeyLength :: nat
  getPublicKey :: "bytes \<Rightarrow> bool option \<Rightarrow> error + bytes"

text \<open>
  Modelled from the spec: \<^verbatim>\<open>SLIP10Node\<close> of \<^verbatim>\<open>../SLIP10Node\<close>, the Key Node, with the
  read-only views the derivers use. \<open>curveName\<close> is the node's \<^verbatim>\<open>curve\<close> member, the name
  of its curve; \<open>fingerprint\<close> is the view \<^verbatim>\<open>node.fingerprint\<close>.
\<close>

record SLIP10Node =
  depth :: nat
  masterFingerprint :: "nat option"
  parentFingerprint :: nat
  index :: nat
  curveName :: string
  privateKeyBytes :: "bytes option"
  compressedPublicKeyBytes :: bytes
  chainCodeBytes :: bytes
  fingerprint :: nat

text \<open>\<^verbatim>\<open>path: Uint8Array | string\<close> of \<^verbatim>\<open>DeriveChildKeyArgs\<close>.\<close>

datatype path = PathString string | PathBytes bytes

text \<open>
  \<^verbatim>\<open>DeriveChildKeyArgs\<close> (derivers/index.ts). \<^verbatim>\<open>Network\<close> is a string literal type of
  \<^verbatim>\<open>../constants\<close>; it is kept as a string.
\<close>

record DeriveChildKeyArgs =
  path :: path
  curve :: Curve
  node :: "SLIP10Node option"
  network :: "string option"

text \<open>
  \<^verbatim>\<open>DeriveKeyArgs = DerivePrivateKeyArgs | DerivePublicKeyArgs\<close>: exactly one of
  \<^verbatim>\<open>privateKey\<close> and \<^verbatim>\<open>publicKey\<close> is present.
\<close>

datatype parentKey = PrivateKey bytes | PublicKey bytes

section \<open>Constants and helpers outside the sources at hand\<close>

text \<open>
  Modelled from the spec: \<^verbatim>\<open>BIP_32_HARDENED_OFFSET\<close> of \<^verbatim>\<open>../constants\<close>, which is
  \<open>2\<^sup>3\<^sup>1 = 2147483648\<close> (the error message of \<^verbatim>\<open>deriveChildKey\<close> prints it).
\<close>

definition BIP_32_HARDENED_OFFSET :: nat where
  "BIP_32_HARDENED_OFFSET = 2147483648"

text \<open>
  Modelled from the spec: \<^verbatim>\<open>BYTES_KEY_LENGTH\<close> of \<^verbatim>\<open>../constants\<close>, the length of a
  private key and of a chain code, 32 bytes.
\<close>

definition BYTES_KEY_LENGTH :: nat where
  "BYTES_KEY_LENGTH = 32"

text \<open>
  Modelled from the spec: \<^verbatim>\<open>MAX_BIP_32_INDEX\<close> of \<^verbatim>\<open>../constants\<close>. The index of a Key
  Node is a 32-bit value, the child index including the hardened offset (section 3), so
  the largest BIP-32 index is \<open>2\<^sup>3\<^sup>2 - 1\<close>.
\<close>

definition MAX_BIP_32_INDEX :: nat where
  "MAX_BIP_32_INDEX = 4294967295"

text \<open>
  Modelled from the spec: \<^verbatim>\<open>validateBIP32Index\<close> of \<^verbatim>\<open>../utils\<close>, the validation of a
  BIP-32 index: a non-negative integer that fits the 32 bits of a node's index. It is
  not the test of a requested child index against the hardened offset, which
  \<^verbatim>\<open>deriveChildKey\<close> writes out itself (lines 94-103). A violation throws
  \<^verbatim>\<open>Invalid BIP-32 index: Must be a non-negative integer.\<close>
\<close>

definition validateBIP32Index :: "nat \<Rightarrow> error + unit" where
  "validateBIP32Index i =
     (if i \<le> MAX_BIP_32_INDEX then Inr ()
      else Inl (Error InvalidIndex ''Invalid BIP-32 index: Must be a non-negative integer.''))"

text \<open>
  Module \<^verbatim>\<open>./shared\<close> is outside the sources at hand; its five functions are parameters
  of the model, with the arguments in the order of the object literals that
  \<^verbatim>\<open>bip32.ts\<close> passes:
  \<^item> \<open>derivePrivateChildKey entropy privateKey depth masterFingerprint parentFingerprint
     childIndex isHardened curve\<close> and \<open>derivePublicChildKey entropy publicKey depth
     masterFingerprint parentFingerprint childIndex curve\<close>: one derivation attempt, which
     returns the child node or throws;
  \<^item> \<open>deriveSecretExtension privateKey childIndex isHardened curve\<close> (awaited by the
     source), \<open>derivePublicExtension parentPublicKey childIndex\<close> and
     \<open>generateEntropy chainCode extension\<close>: the serialisation and the HMAC of steps 1
     and 2 of the algorithm. Each returns bytes or throws.
\<close>

record shared =
  derivePrivateChildKey ::
    "bytes \<Rightarrow> bytes \<Rightarrow> nat \<Rightarrow> nat option \<Rightarrow> nat \<Rightarrow> nat \<Rightarrow> bool \<Rightarrow> Curve \<Rightarrow> error + SLIP10Node"
  derivePublicChildKey ::
    "bytes \<Rightarrow> bytes \<Rightarrow> nat \<Rightarrow> nat option \<Rightarrow> nat \<Rightarrow> nat \<Rightarrow> Curve \<Rightarrow> error + SLIP10Node"
  deriveSecretExtension :: "bytes \<Rightarrow> nat \<Rightarrow> bool \<Rightarrow> Curve \<Rightarrow> error + bytes"
  derivePublicExtension :: "bytes \<Rightarrow> nat \<Rightarrow> error + bytes"
  generateEntropy :: "bytes \<Rightarrow> bytes \<Rightarrow> error + bytes"

section \<open>BIP-32: \<^verbatim>\<open>deriveNode\<close> (derivers/bip32.ts, lines 191-276)\<close>

text \<open>
  The body of the \<^verbatim>\<open>try\<close> block (lines 203-225): one derivation attempt, private when a
  private key is given and public otherwise.
\<close>

definition deriveNode_try ::
  "shared \<Rightarrow> parentKey \<Rightarrow> bytes \<Rightarrow> nat \<Rightarrow> bool \<Rightarrow> nat \<Rightarrow> nat \<Rightarrow> nat option \<Rightarrow> Curve
     \<Rightarrow> error + SLIP10Node" where
  "deriveNode_try sh key entropy childIndex isHardened depth' parentFingerprint'
       masterFingerprint' curve' =
     (case key of
        PrivateKey privateKey \<Rightarrow>
          derivePrivateChildKey sh entropy privateKey depth' masterFingerprint'
            parentFingerprint' childIndex isHardened curve'
      | PublicKey publicKey \<Rightarrow>
          derivePublicChildKey sh entropy publicKey depth' masterFingerprint'
            parentFingerprint' childIndex curve')"

text \<open>
  The entropy that the \<^verbatim>\<open>catch\<close> block recomputes for an index (lines 240-251 and
  260-268); \<^verbatim>\<open>deriveChildKey\<close> computes the entropy of the first attempt by the same two
  calls (lines 115-126 and 135-143). Both places are outside the \<^verbatim>\<open>try\<close> block, so what
  the two calls throw reaches the caller.
\<close>

definition newEntropy ::
  "shared \<Rightarrow> parentKey \<Rightarrow> bytes \<Rightarrow> nat \<Rightarrow> bool \<Rightarrow> Curve \<Rightarrow> error + bytes" where
  "newEntropy sh key chainCode childIndex isHardened curve' =
     (case key of
        PrivateKey privateKey \<Rightarrow>
          (case deriveSecretExtension sh privateKey childIndex isHardened curve' of
             Inl e \<Rightarrow> Inl e
           | Inr secretExtension \<Rightarrow> generateEntropy sh chainCode secretExtension)
      | PublicKey publicKey \<Rightarrow>
          (case derivePublicExtension sh publicKey childIndex of
             Inl e \<Rightarrow> Inl e
           | Inr publicExtension \<Rightarrow> generateEntropy sh chainCode publicExtension))"

text \<open>
  \<^verbatim>\<open>deriveNode\<close>. The \<^verbatim>\<open>catch\<close> has no binding: whatever the attempt threw is dropped.
  \<^verbatim>\<open>validateBIP32Index(childIndex + 1)\<close> and the computation of the new entropy may throw
  out of the \<^verbatim>\<open>catch\<close> block; otherwise the function calls itself with
  \<^verbatim>\<open>childIndex + 1\<close> and the new entropy, every other argument unchanged.
\<close>

function deriveNode ::
  "shared \<Rightarrow> parentKey \<Rightarrow> bytes \<Rightarrow> bytes \<Rightarrow> nat \<Rightarrow> bool \<Rightarrow> nat \<Rightarrow> nat \<Rightarrow> nat option \<Rightarrow> Curve
     \<Rightarrow> error + SLIP10Node" where
  "deriveNode sh key entropy chainCode childIndex isHardened depth' parentFingerprint'
       masterFingerprint' curve' =
     (case deriveNode_try sh key entropy childIndex isHardened depth' parentFingerprint'
             masterFingerprint' curve' of
        Inr child \<Rightarrow> Inr child
      | Inl _ \<Rightarrow>
          (case validateBIP32Index (childIndex + 1) of
             Inl e \<Rightarrow> Inl e
           | Inr _ \<Rightarrow>
               (case newEntropy sh key chainCode (childIndex + 1) isHardened curve' of
                  Inl e \<Rightarrow> Inl e
                | Inr entropy' \<Rightarrow>
                    deriveNode sh key entropy' chainCode (childIndex + 1) isHardened depth'
                      parentFingerprint' masterFingerprint' curve')))"
  by pat_completeness auto
termination
  by (relation "measure (\<lambda>(sh, key, entropy, chainCode, childIndex, rest).
        MAX_BIP_32_INDEX + 1 - childIndex)")
     (auto simp: validateBIP32Index_def split: if_splits)

declare deriveNode.simps [simp del]



section \<open>BIP-32: \<^verbatim>\<open>deriveChildKey\<close> (derivers/bip32.ts, lines 68-150)\<close>

text \<open>
  \<^verbatim>\<open>/^\d+$/u.test(indexPart)\<close>: a non-empty run of ASCII digits.
\<close>

definition isDigit :: "char \<Rightarrow> bool" where
  "isDigit ch = (ch \<in> set ''0123456789'')"

definition isDecimal :: "string \<Rightarrow> bool" where
  "isDecimal s = (s \<noteq> [] \<and> (\<forall>ch \<in> set s. isDigit ch))"

text \<open>
  \<^verbatim>\<open>parseInt(indexPart, 10)\<close> on a run of digits: its decimal value. The source reads the
  result only when the digit test has passed. A JavaScript number holds every value
  below \<open>2\<^sup>3\<^sup>1\<close> exactly and rounds a larger one to a number that is not below \<open>2\<^sup>3\<^sup>1\<close>
  (or to \<^verbatim>\<open>Infinity\<close>, which \<^verbatim>\<open>Number.isInteger\<close> refuses), so the range test of the
  source accepts exactly the digit strings whose value is below \<open>2\<^sup>3\<^sup>1\<close>.
\<close>

definition parseInt :: "string \<Rightarrow> nat" where
  "parseInt s = foldl (\<lambda>acc ch. 10 * acc + (of_char ch - 48)) 0 s"

text \<open>The apostrophe, and \<^verbatim>\<open>path.split(`'`)[0]\<close>: the text before the first apostrophe.\<close>

definition apostrophe :: char where
  "apostrophe = CHR 0x27"

definition indexPartOf :: "string \<Rightarrow> string" where
  "indexPartOf p = takeWhile (\<lambda>ch. ch \<noteq> apostrophe) p"

text \<open>
  Lines 74-103 of \<^verbatim>\<open>deriveChildKey\<close>: the checks of the arguments, in the order of the
  source. They return the parent node, \<^verbatim>\<open>isHardened\<close> and \<^verbatim>\<open>childIndex\<close>, or the first
  error thrown. \<^verbatim>\<open>!node.privateKey\<close> holds exactly when the node has no private key bytes.
\<close>

definition bip32_checkArgs :: "DeriveChildKeyArgs \<Rightarrow> error + (SLIP10Node \<times> bool \<times> nat)" where
  "bip32_checkArgs args =
     (case path args of
        PathBytes _ \<Rightarrow> Inl (Error InvalidParameters ''Invalid path: Must be a string.'')
      | PathString p \<Rightarrow>
          if name (curve args) \<noteq> ''secp256k1''
          then Inl (Error InvalidParameters
                      ''Invalid curve: Only secp256k1 is supported by BIP-32.'')
          else
            (case node args of
               None \<Rightarrow>
                 Inl (Error InvalidParameters
                        ''Invalid parameters: Must specify a node to derive from.'')
             | Some nd \<Rightarrow>
                 let isHardened = (apostrophe \<in> set p) in
                 if isHardened \<and> privateKeyBytes nd = None
                 then Inl (Error InvalidParameters
                   ''Invalid parameters: Cannot derive hardened child keys without a private key.'')
                 else
                   let indexPart = indexPartOf p;
                       childIndex = parseInt indexPart
                   in
                     if \<not> isDecimal indexPart \<or> childIndex \<ge> BIP_32_HARDENED_OFFSET
                     then Inl (Error InvalidIndex
  ''Invalid BIP-32 index: The index must be a non-negative decimal integer less than 2147483648.'')
                     else Inr (nd, isHardened, childIndex)))"

text \<open>The parent key that \<^verbatim>\<open>deriveChildKey\<close> hands to \<^verbatim>\<open>deriveNode\<close> (lines 115-149).\<close>

definition parentKeyOf :: "SLIP10Node \<Rightarrow> parentKey" where
  "parentKeyOf nd =
     (case privateKeyBytes nd of
        Some privateKey \<Rightarrow> PrivateKey privateKey
      | None \<Rightarrow> PublicKey (compressedPublicKeyBytes nd))"

text \<open>\<^verbatim>\<open>deriveChildKey\<close> of the BIP-32 deriver: the checks, then lines 105-149.\<close>

definition bip32_deriveChildKey :: "shared \<Rightarrow> DeriveChildKeyArgs \<Rightarrow> error + SLIP10Node" where
  "bip32_deriveChildKey sh args =
     (case bip32_checkArgs args of
        Inl e \<Rightarrow> Inl e
      | Inr (nd, isHardened, childIndex) \<Rightarrow>
          (case privateKeyBytes nd of
             Some privateKey \<Rightarrow>
               (case deriveSecretExtension sh privateKey childIndex isHardened (curve args) of
                  Inl e \<Rightarrow> Inl e
                | Inr secretExtension \<Rightarrow>
                    (case generateEntropy sh (chainCodeBytes nd) secretExtension of
                       Inl e \<Rightarrow> Inl e
                     | Inr entropy \<Rightarrow>
                         deriveNode sh (PrivateKey privateKey) entropy (chainCodeBytes nd)
                           childIndex isHardened (depth nd) (fingerprint nd)
                           (masterFingerprint nd) (curve args)))
           | None \<Rightarrow>
               (case derivePublicExtension sh (compressedPublicKeyBytes nd) childIndex of
                  Inl e \<Rightarrow> Inl e
                | Inr publicExtension \<Rightarrow>
                    (case generateEntropy sh (chainCodeBytes nd) publicExtension of
                       Inl e \<Rightarrow> Inl e
                     | Inr entropy \<Rightarrow>
                         deriveNode sh (PublicKey (compressedPublicKeyBytes nd)) entropy
                           (chainCodeBytes nd) childIndex isHardened (depth nd)
                           (fingerprint nd) (masterFingerprint nd) (curve args)))))"

text \<open>
  The path segment grammar as the specification words it: an unsigned decimal integer
  below \<open>2\<^sup>3\<^sup>1\<close>, optionally followed by one apostrophe.
\<close>

definition specSegment :: "string \<Rightarrow> bool" where
  "specSegment p =
     ((isDecimal p \<and> parseInt p < BIP_32_HARDENED_OFFSET) \<or>
      (p \<noteq> [] \<and> last p = apostrophe \<and> isDecimal (butlast p) \<and>
       parseInt (butlast p) < BIP_32_HARDENED_OFFSET))"

section \<open>Hash primitives\<close>

text \<open>
  The functions the code imports from outside the repository, \<^verbatim>\<open>getFingerprint\<close> of
  \<^verbatim>\<open>../utils\<close> (a hash of a public key) and the curve registry of \<^verbatim>\<open>../curves\<close>:
  parameters of the model. \<open>hmacSha512 key message\<close> is \<^verbatim>\<open>hmac(sha512, key, message)\<close>;
  \<open>mnemonicToSeed\<close> is applied to the path with the English word list and may throw;
  \<open>getCurveByName\<close> gives the curve descriptor registered under a name, if there is one.
\<close>

record primitives =
  hmacSha512 :: "bytes \<Rightarrow> bytes \<Rightarrow> bytes"
  keccak256 :: "bytes \<Rightarrow> bytes"
  mnemonicToSeed :: "path \<Rightarrow> error + bytes"
  getFingerprint :: "bytes \<Rightarrow> nat"
  getCurveByName :: "string \<Rightarrow> Curve option"

text \<open>\<^verbatim>\<open>bytesToBigInt\<close> of \<^verbatim>\<open>@metamask/utils\<close>: the bytes read as a big-endian integer.\<close>

definition bytesToBigInt :: "bytes \<Rightarrow> nat" where
  "bytesToBigInt bs = foldl (\<lambda>acc b. 256 * acc + unat b) 0 bs"

text \<open>
  Modelled from the spec: \<^verbatim>\<open>isValidBytesKey\<close> of \<^verbatim>\<open>../utils\<close>. A key is valid when it has
  the expected length and is not zero (some byte differs from 0).
\<close>

definition isValidBytesKey :: "bytes \<Rightarrow> nat \<Rightarrow> bool" where
  "isValidBytesKey bs expectedLength = (length bs = expectedLength \<and> (\<exists>b \<in> set bs. b \<noteq> 0))"

section \<open>Ethereum addresses (derivers/bip32.ts, lines 28-57)\<close>

text \<open>\<^verbatim>\<open>bytes.slice(-k)\<close>: the last \<open>k\<close> bytes, or all of them when there are fewer.\<close>

definition sliceLast :: "nat \<Rightarrow> bytes \<Rightarrow> bytes" where
  "sliceLast k bs = drop (length bs - k) bs"

text \<open>
  \<^verbatim>\<open>publicKeyToEthAddress\<close>; \<open>secp256k1\<close> is the curve object of \<^verbatim>\<open>../curves\<close>, whose
  \<^verbatim>\<open>publicKeyLength\<close> the assertion reads.
\<close>

definition publicKeyToEthAddress :: "primitives \<Rightarrow> Curve \<Rightarrow> bytes \<Rightarrow> error + bytes" where
  "publicKeyToEthAddress P secp256k1 key =
     (if \<not> isValidBytesKey key (publicKeyLength secp256k1)
      then Inl (Error InvalidPublicKey
                  ''Invalid key: The key must be a 65-byte, non-zero Uint8Array.'')
      else Inr (sliceLast 20 (keccak256 P (drop 1 key))))"

text \<open>\<^verbatim>\<open>privateKeyToEthAddress\<close>; \<^verbatim>\<open>secp256k1.getPublicKey(key, false)\<close> may throw.\<close>

definition privateKeyToEthAddress :: "primitives \<Rightarrow> Curve \<Rightarrow> bytes \<Rightarrow> error + bytes" where
  "privateKeyToEthAddress P secp256k1 key =
     (if \<not> isValidBytesKey key BYTES_KEY_LENGTH
      then Inl (Error InvalidPrivateKey
                  ''Invalid key: The key must be a 32-byte, non-zero Uint8Array.'')
      else
        (case getPublicKey secp256k1 key (Some False) of
           Inl e \<Rightarrow> Inl e
         | Inr publicKey \<Rightarrow> publicKeyToEthAddress P secp256k1 publicKey))"

section \<open>BIP-39: the seed-to-master-key transform\<close>

text \<open>
  Modelled from the spec: \<^verbatim>\<open>SLIP10Node.fromExtendedKey\<close> (module \<^verbatim>\<open>../SLIP10Node\<close>), for
  the call the sources make, with a private key and no public key. It receives the
  name of the curve and takes the descriptor registered under that name; an unknown
  name is a fatal error. It validates the byte lengths (chain code exactly 32 bytes;
  private key exactly 32 bytes and a non-zero scalar strictly less than the curve
  order), computes the public key from the private key, and returns the node with the
  members as given. The node's public key is the compressed one and its fingerprint is
  the hash of that key. The specification does not give the messages of these errors.
\<close>

definition fromExtendedKey ::
  "primitives \<Rightarrow> bytes \<Rightarrow> bytes \<Rightarrow> nat option \<Rightarrow> nat \<Rightarrow> nat \<Rightarrow> nat \<Rightarrow> string
     \<Rightarrow> error + SLIP10Node" where
  "fromExtendedKey P privateKey chainCode masterFingerprint' depth' parentFingerprint' index'
       curveName' =
     (case getCurveByName P curveName' of
        None \<Rightarrow> Inl (Error UnsupportedCurve ''Invalid curve.'')
      | Some curve' \<Rightarrow>
          if length chainCode \<noteq> BYTES_KEY_LENGTH
          then Inl (Error InvalidParameters
                      ''Invalid chain code: Must be a 32-byte byte array.'')
          else if length privateKey \<noteq> BYTES_KEY_LENGTH
                  \<or> \<not> (0 < bytesToBigInt privateKey
                        \<and> bytesToBigInt privateKey < curve_n curve')
          then Inl (Error InvalidPrivateKey ''Invalid private key.'')
          else
            (case getPublicKey curve' privateKey (Some True) of
               Inl e \<Rightarrow> Inl e
             | Inr publicKey \<Rightarrow>
                 Inr \<lparr> depth = depth',
                       masterFingerprint = masterFingerprint',
                       parentFingerprint = parentFingerprint',
                       index = index',
                       curveName = curveName',
                       privateKeyBytes = Some privateKey,
                       compressedPublicKeyBytes = publicKey,
                       chainCodeBytes = chainCode,
                       fingerprint = getFingerprint P publicKey \<rparr>))"

text \<open>
  \<^verbatim>\<open>createBip39KeyFromSeed\<close>, the implementation that returns a \<^verbatim>\<open>SLIP10Node\<close>
  (lines 98-125 of the BIP-39 deriver). The master fingerprint comes from the public
  key that the curve object passed in computes; \<^verbatim>\<open>fromExtendedKey\<close> receives
  \<^verbatim>\<open>curve.name\<close> only.
\<close>

definition createBip39KeyFromSeed :: "primitives \<Rightarrow> bytes \<Rightarrow> Curve \<Rightarrow> error + SLIP10Node" where
  "createBip39KeyFromSeed P seed curve' =
     (let key = hmacSha512 P (secret curve') seed;
          privateKey = take BYTES_KEY_LENGTH key;
          chainCode = drop BYTES_KEY_LENGTH key;
          privateKeyBigInt = bytesToBigInt privateKey
      in
        if \<not> (privateKeyBigInt > 0 \<and> privateKeyBigInt < curve_n curve')
        then Inl (Error InvalidPrivateKey
  ''Invalid private key: The private key must larger than 0 and less than the curve order.'')
        else
          (case getPublicKey curve' privateKey (Some True) of
             Inl e \<Rightarrow> Inl e
           | Inr publicKey \<Rightarrow>
               let masterFingerprint' = getFingerprint P publicKey
               in fromExtendedKey P privateKey chainCode (Some masterFingerprint') 0 0 0
                    (name curve')))"

text \<open>
  \<^verbatim>\<open>deriveChildKey\<close> of the BIP-39 deriver (lines 80-88): it destructures \<^verbatim>\<open>path\<close> and
  \<^verbatim>\<open>curve\<close> only.
\<close>

definition bip39_deriveChildKey :: "primitives \<Rightarrow> DeriveChildKeyArgs \<Rightarrow> error + SLIP10Node" where
  "bip39_deriveChildKey P args =
     (case mnemonicToSeed P (path args) of
        Inl e \<Rightarrow> Inl e
      | Inr seed \<Rightarrow> createBip39KeyFromSeed P seed (curve args))"

text \<open>
  \<^verbatim>\<open>createBip39KeyFromSeed\<close>, the implementation that returns the tuple
  \<^verbatim>\<open>[privateKey, publicKey, chainCode]\<close> (lines 40-49). It calls \<^verbatim>\<open>curve.getPublicKey\<close>
  without the \<^verbatim>\<open>compressed\<close> flag.
\<close>

definition createBip39KeyFromSeed_tuple ::
  "primitives \<Rightarrow> bytes \<Rightarrow> Curve \<Rightarrow> error + (bytes \<times> bytes \<times> bytes)" where
  "createBip39KeyFromSeed_tuple P seed curve' =
     (let key = hmacSha512 P (secret curve') seed;
          privateKey = take 32 key
      in
        (case getPublicKey curve' privateKey None of
           Inl e \<Rightarrow> Inl e
         | Inr publicKey \<Rightarrow> Inr (privateKey, publicKey, take (64 - 32) (drop 32 key))))"

section \<open>Concrete instances\<close>

text \<open>
  Small instances of the parameters, on which the definitions evaluate: a curve of
  order 251 named \<^verbatim>\<open>secp256k1\<close>, and derivation helpers whose attempt fails exactly when
  the entropy is the byte 0 or 1. The extension of an index is its low byte and the
  entropy is the extension, so the attempts at the indices 0 and 1 fail and the attempt
  at 2 succeeds. In \<open>barren_shared\<close> every private attempt fails, and in
  \<open>edge_shared\<close> the private attempt fails exactly on the entropy 255, the low byte of
  \<open>2\<^sup>3\<^sup>1 - 1\<close>.
\<close>

definition toy_curve :: Curve where
  "toy_curve =
     \<lparr> name = ''secp256k1'', secret = [1, 2, 3], curve_n = 251, publicKeyLength = 65,
       getPublicKey = (\<lambda>k compressed.
         if compressed = Some True then Inr (2 # k) else Inr (4 # k @ k)) \<rparr>"

definition toy_child ::
  "bytes \<Rightarrow> bytes \<Rightarrow> nat \<Rightarrow> nat option \<Rightarrow> nat \<Rightarrow> nat \<Rightarrow> Curve \<Rightarrow> SLIP10Node" where
  "toy_child entropy key depth' masterFingerprint' parentFingerprint' index' curve' =
     \<lparr> depth = depth' + 1, masterFingerprint = masterFingerprint',
       parentFingerprint = parentFingerprint', index = index', curveName = name curve',
       privateKeyBytes = None, compressedPublicKeyBytes = key @ entropy,
       chainCodeBytes = entropy, fingerprint = length key \<rparr>"

definition toy_shared :: shared where
  "toy_shared =
     \<lparr> derivePrivateChildKey = (\<lambda>entropy privateKey depth' masterFingerprint'
          parentFingerprint' childIndex isHardened curve'.
          if entropy = [0] \<or> entropy = [1]
          then Inl (Error InvalidPrivateKey ''Invalid private key.'')
          else Inr (toy_child entropy privateKey depth' masterFingerprint' parentFingerprint'
                 (childIndex + (if isHardened then BIP_32_HARDENED_OFFSET else 0)) curve')),
       derivePublicChildKey = (\<lambda>entropy publicKey depth' masterFingerprint'
          parentFingerprint' childIndex curve'.
          if entropy = [0]
          then Inl (Error InvalidPublicKey ''Invalid public key.'')
          else Inr (toy_child entropy publicKey depth' masterFingerprint' parentFingerprint'
                 childIndex curve')),
       deriveSecretExtension =
         (\<lambda>privateKey childIndex isHardened curve'. Inr [of_nat childIndex]),
       derivePublicExtension = (\<lambda>parentPublicKey childIndex. Inr [of_nat childIndex]),
       generateEntropy = (\<lambda>chainCode extension. Inr extension) \<rparr>"

definition barren_shared :: shared where
  "barren_shared =
     toy_shared \<lparr> derivePrivateChildKey := (\<lambda>entropy privateKey depth' masterFingerprint'
          parentFingerprint' childIndex isHardened curve'.
          Inl (Error InvalidPrivateKey ''Invalid private key.'')) \<rparr>"

definition edge_shared :: shared where
  "edge_shared =
     toy_shared \<lparr> derivePrivateChildKey := (\<lambda>entropy privateKey depth' masterFingerprint'
          parentFingerprint' childIndex isHardened curve'.
          if entropy = [255]
          then Inl (Error InvalidPrivateKey ''Invalid private key.'')
          else Inr (toy_child entropy privateKey depth' masterFingerprint' parentFingerprint'
                 (childIndex + (if isHardened then BIP_32_HARDENED_OFFSET else 0)) curve')) \<rparr>"

text \<open>
  In \<open>flaky_shared\<close> the private attempt on the entropy 0 throws an error that has
  nothing to do with the key material, and every other attempt succeeds.
  \<open>toy_parent\<close> is a parent node with a private key and \<open>toy_args p\<close> asks for the
  segment \<open>p\<close> below it.
\<close>

definition flaky_shared :: shared where
  "flaky_shared =
     toy_shared \<lparr> derivePrivateChildKey := (\<lambda>entropy privateKey depth' masterFingerprint'
          parentFingerprint' childIndex isHardened curve'.
          if entropy = [0]
          then Inl (Error OtherFailure ''provider unavailable'')
          else Inr (toy_child entropy privateKey depth' masterFingerprint' parentFingerprint'
                 (childIndex + (if isHardened then BIP_32_HARDENED_OFFSET else 0)) curve')) \<rparr>"

definition toy_parent :: SLIP10Node where
  "toy_parent =
     \<lparr> depth = 3, masterFingerprint = Some 7, parentFingerprint = 5, index = 0,
       curveName = ''secp256k1'', privateKeyBytes = Some [9],
       compressedPublicKeyBytes = [2, 9], chainCodeBytes = [], fingerprint = 7 \<rparr>"

definition toy_args :: "string \<Rightarrow> DeriveChildKeyArgs" where
  "toy_args p =
     \<lparr> path = PathString p, curve = toy_curve, node = Some toy_parent, network = None \<rparr>"

text \<open>
  \<open>other_curve\<close> is the same curve under the name \<^verbatim>\<open>ed25519\<close>, and \<open>public_parent\<close>
  is the parent node without its private key.
\<close>

definition other_curve :: Curve where
  "other_curve = toy_curve \<lparr> name := ''ed25519'' \<rparr>"

definition public_parent :: SLIP10Node where
  "public_parent = toy_parent \<lparr> privateKeyBytes := None \<rparr>"

text \<open>
  Hash primitives that evaluate: the HMAC output is 31 zero bytes, the length of the
  message, and 32 bytes of value 9, so the private key of a seed of five bytes is the
  integer 5 and the private key of the empty seed is 0. \<open>toy_key\<close> is that 32-byte
  key and \<open>toy_seed\<close> a seed of five bytes. The registry knows the curve
  \<open>toy_curve\<close> under its name. \<open>rogue_curve\<close> is a curve object with the same name and
  order that computes another public key.
\<close>

definition toy_primitives :: primitives where
  "toy_primitives =
     \<lparr> hmacSha512 = (\<lambda>key message.
         replicate 31 0 @ [of_nat (length message)] @ replicate 32 9),
       keccak256 = (\<lambda>message. take 32 (message @ replicate 32 0)),
       mnemonicToSeed = (\<lambda>p. case p of
           PathString s \<Rightarrow> Inr (map (\<lambda>ch. of_nat (of_char ch)) s)
         | PathBytes b \<Rightarrow> Inr b),
       getFingerprint = (\<lambda>publicKey. bytesToBigInt (take 4 publicKey)),
       getCurveByName = (\<lambda>curveName'.
         if curveName' = ''secp256k1'' then Some toy_curve else None) \<rparr>"

definition rogue_curve :: Curve where
  "rogue_curve = toy_curve \<lparr> getPublicKey := (\<lambda>k compressed. Inr (3 # k)) \<rparr>"

definition toy_key :: bytes where
  "toy_key = replicate 31 0 @ [5]"

definition toy_seed :: bytes where
  "toy_seed = [1, 2, 3, 4, 5]"

section \<open>The retry of \<^verbatim>\<open>deriveNode\<close>\<close>



lemma deriveNode_success:
  "deriveNode_try sh key ent i h d pf mf c = Inr child
   \<Longrightarrow> deriveNode sh key ent cc i h d pf mf c = Inr child"
  by (simp add: deriveNode.simps)

lemma deriveNode_step:
  assumes "isl (deriveNode_try sh key ent i h d pf mf c)"
    and "validateBIP32Index (i + 1) = Inr ()"
    and "newEntropy sh key cc (i + 1) h c = Inr ent'"
  shows "deriveNode sh key ent cc i h d pf mf c =
         deriveNode sh key ent' cc (i + 1) h d pf mf c"
proof -
  from assms(1) obtain e where "deriveNode_try sh key ent i h d pf mf c = Inl e"
    by (auto simp: isl_def)
  with assms(2,3) show ?thesis
    by (subst deriveNode.simps) simp
qed




lemma bip32_deriveChildKey_eq:
  assumes "bip32_checkArgs args = Inr (nd, h, i)"
  shows "bip32_deriveChildKey sh args =
     (case newEntropy sh (parentKeyOf nd) (chainCodeBytes nd) i h (curve args) of
        Inl e \<Rightarrow> Inl e
      | Inr ent \<Rightarrow>
          deriveNode sh (parentKeyOf nd) ent (chainCodeBytes nd) i h (depth nd)
            (fingerprint nd) (masterFingerprint nd) (curve args))"
  using assms
  by (simp add: bip32_deriveChildKey_def parentKeyOf_def newEntropy_def
           split: option.splits sum.splits)




lemma toy_newEntropy:
  "newEntropy toy_shared (PrivateKey [9]) [] k h toy_curve = Inr [of_nat k]"
  "newEntropy barren_shared (PrivateKey [9]) [] k h toy_curve = Inr [of_nat k]"
  "newEntropy flaky_shared (PrivateKey [9]) [] k h toy_curve = Inr [of_nat k]"
  "newEntropy edge_shared (PrivateKey [9]) [] k h toy_curve = Inr [of_nat k]"
  by (simp_all add: newEntropy_def toy_shared_def barren_shared_def flaky_shared_def
        edge_shared_def)












lemma deriveNode_error:
  "deriveNode sh key ent cc i h d pf mf c = Inl e
   \<Longrightarrow> \<exists>k. i < k \<and> (validateBIP32Index k = Inl e \<or> newEntropy sh key cc k h c = Inl e)"
proof (induction sh key ent cc i h d pf mf c rule: deriveNode.induct)
  case (1 sh key ent cc i h d pf mf c)
  show ?case
  proof (cases "deriveNode_try sh key ent i h d pf mf c")
    case (Inr n)
    with "1.prems" show ?thesis by (simp add: deriveNode.simps)
  next
    case (Inl e')
    show ?thesis
    proof (cases "validateBIP32Index (i + 1)")
      case refused: (Inl e'')
      with Inl "1.prems" have "validateBIP32Index (i + 1) = Inl e"
        by (simp add: deriveNode.simps)
      then show ?thesis by (intro exI [of _ "i + 1"]) simp
    next
      case ok: (Inr u)
      show ?thesis
      proof (cases "newEntropy sh key cc (i + 1) h c")
        case thrown: (Inl e'')
        with Inl ok "1.prems" have "newEntropy sh key cc (i + 1) h c = Inl e"
          by (simp add: deriveNode.simps)
        then show ?thesis by (intro exI [of _ "i + 1"]) simp
      next
        case (Inr ent')
        with Inl ok "1.prems"
        have "deriveNode sh key ent' cc (i + 1) h d pf mf c = Inl e"
          by (simp add: deriveNode.simps)
        from "1.IH" [OF Inl ok Inr this]
        obtain k where "i + 1 < k"
          "validateBIP32Index k = Inl e \<or> newEntropy sh key cc k h c = Inl e"
          by blast
        then show ?thesis by (intro exI [of _ k]) simp
      qed
    qed
  qed
qed

lemma flaky_deriveNode:
  "deriveNode flaky_shared (PrivateKey [9]) [0] [] 0 True 3 7 (Some 7) toy_curve =
     Inr (toy_child [1] [9] 3 (Some 7) 7 (1 + BIP_32_HARDENED_OFFSET) toy_curve)"
proof -
  have fails: "isl (deriveNode_try flaky_shared (PrivateKey [9]) [0] 0 True 3 7 (Some 7)
      toy_curve)"
    by (simp add: deriveNode_try_def flaky_shared_def)
  have ok: "validateBIP32Index (0 + 1) = Inr ()"
    by (simp add: validateBIP32Index_def MAX_BIP_32_INDEX_def)
  have ent: "newEntropy flaky_shared (PrivateKey [9]) [] (0 + 1) True toy_curve = Inr [1]"
    by (simp add: toy_newEntropy)
  have "deriveNode_try flaky_shared (PrivateKey [9]) [1] (0 + 1) True 3 7 (Some 7) toy_curve =
      Inr (toy_child [1] [9] 3 (Some 7) 7 (1 + BIP_32_HARDENED_OFFSET) toy_curve)"
    by (simp add: deriveNode_try_def flaky_shared_def)
  then have "deriveNode flaky_shared (PrivateKey [9]) [1] [] (0 + 1) True 3 7 (Some 7)
      toy_curve = Inr (toy_child [1] [9] 3 (Some 7) 7 (1 + BIP_32_HARDENED_OFFSET) toy_curve)"
    by (rule deriveNode_success)
  with deriveNode_step [OF fails ok ent] show ?thesis by simp
qed

text \<open>
  C2, as stated, fails: the \<^verbatim>\<open>catch\<close> of \<^verbatim>\<open>deriveNode\<close> does not look at what was thrown.
  An attempt that throws a failure unrelated to the key material is retried like any
  other, and the caller gets the node of the next index instead of the failure.
\<close>

theorem deriveNode_unrelated_failure_counterexample:
  "deriveNode_try flaky_shared (PrivateKey [9]) [0] 0 True 3 7 (Some 7) toy_curve =
     Inl (Error OtherFailure ''provider unavailable'')
   \<and> deriveNode flaky_shared (PrivateKey [9]) [0] [] 0 True 3 7 (Some 7) toy_curve =
     Inr (toy_child [1] [9] 3 (Some 7) 7 (1 + BIP_32_HARDENED_OFFSET) toy_curve)"
  by (simp add: flaky_deriveNode) (simp add: deriveNode_try_def flaky_shared_def)

text \<open>
  C2, amended: the retry is triggered by every failure thrown inside a derivation
  attempt, of whatever kind, and the thrown value is dropped (first conjunct). Every
  failure that \<^verbatim>\<open>deriveNode\<close> returns was thrown outside the attempts, by
  \<^verbatim>\<open>validateBIP32Index\<close> or by the recomputation of the extension and entropy for a
  later index (second conjunct). The failures of the argument checks of
  \<^verbatim>\<open>deriveChildKey\<close>, which run before the first attempt, reach the caller unmodified
  (third conjunct); they, the failures of the computation of an extension or entropy
  and those of \<^verbatim>\<open>validateBIP32Index\<close> are the only failures of \<^verbatim>\<open>deriveChildKey\<close>
  (fourth conjunct).
\<close>

theorem deriveChildKey_failures:
  "(\<forall>e ent'. deriveNode_try sh key ent i h d pf mf c = Inl e
        \<and> validateBIP32Index (i + 1) = Inr ()
        \<and> newEntropy sh key cc (i + 1) h c = Inr ent'
        \<longrightarrow> deriveNode sh key ent cc i h d pf mf c =
            deriveNode sh key ent' cc (i + 1) h d pf mf c)
   \<and> (\<forall>e. deriveNode sh key ent cc i h d pf mf c = Inl e
        \<longrightarrow> (\<exists>k. i < k
              \<and> (validateBIP32Index k = Inl e \<or> newEntropy sh key cc k h c = Inl e)))
   \<and> (\<forall>e. bip32_checkArgs args = Inl e \<longrightarrow> bip32_deriveChildKey sh args = Inl e)
   \<and> (\<forall>e. bip32_deriveChildKey sh args = Inl e
        \<longrightarrow> bip32_checkArgs args = Inl e
          \<or> (\<exists>nd h' i'. bip32_checkArgs args = Inr (nd, h', i')
                \<and> (\<exists>k. i' \<le> k
                      \<and> (newEntropy sh (parentKeyOf nd) (chainCodeBytes nd) k h' (curve args)
                            = Inl e
                          \<or> (i' < k \<and> validateBIP32Index k = Inl e)))))"
proof (intro conjI allI impI)
  fix e ent'
  assume "deriveNode_try sh key ent i h d pf mf c = Inl e
        \<and> validateBIP32Index (i + 1) = Inr ()
        \<and> newEntropy sh key cc (i + 1) h c = Inr ent'"
  then show "deriveNode sh key ent cc i h d pf mf c =
      deriveNode sh key ent' cc (i + 1) h d pf mf c"
    by (intro deriveNode_step) auto
next
  fix e
  assume "deriveNode sh key ent cc i h d pf mf c = Inl e"
  then show "\<exists>k. i < k
      \<and> (validateBIP32Index k = Inl e \<or> newEntropy sh key cc k h c = Inl e)"
    by (rule deriveNode_error)
next
  fix e
  assume "bip32_checkArgs args = Inl e"
  then show "bip32_deriveChildKey sh args = Inl e"
    by (simp add: bip32_deriveChildKey_def)
next
  fix e
  assume failed: "bip32_deriveChildKey sh args = Inl e"
  show "bip32_checkArgs args = Inl e
      \<or> (\<exists>nd h' i'. bip32_checkArgs args = Inr (nd, h', i')
            \<and> (\<exists>k. i' \<le> k
                  \<and> (newEntropy sh (parentKeyOf nd) (chainCodeBytes nd) k h' (curve args)
                        = Inl e
                      \<or> (i' < k \<and> validateBIP32Index k = Inl e))))"
  proof (cases "bip32_checkArgs args")
    case (Inl e')
    with failed show ?thesis by (simp add: bip32_deriveChildKey_def)
  next
    case (Inr r)
    obtain nd h' i' where r: "r = (nd, h', i')" by (cases r) auto
    with Inr have chk: "bip32_checkArgs args = Inr (nd, h', i')" by simp
    let ?new = "newEntropy sh (parentKeyOf nd) (chainCodeBytes nd)"
    have "\<exists>k. i' \<le> k
        \<and> (?new k h' (curve args) = Inl e \<or> (i' < k \<and> validateBIP32Index k = Inl e))"
    proof (cases "?new i' h' (curve args)")
      case thrown: (Inl e')
      with failed have "?new i' h' (curve args) = Inl e"
        by (simp add: bip32_deriveChildKey_eq [OF chk])
      then show ?thesis by (intro exI [of _ i']) simp
    next
      case ent: (Inr ent0)
      with failed have "deriveNode sh (parentKeyOf nd) ent0 (chainCodeBytes nd) i' h'
          (depth nd) (fingerprint nd) (masterFingerprint nd) (curve args) = Inl e"
        by (simp add: bip32_deriveChildKey_eq [OF chk])
      from deriveNode_error [OF this]
      obtain k where "i' < k"
        "validateBIP32Index k = Inl e \<or> ?new k h' (curve args) = Inl e"
        by blast
      then show ?thesis by (intro exI [of _ k]) auto
    qed
    with chk show ?thesis by blast
  qed
qed

lemma toy_checkArgs_x:
  "bip32_checkArgs (toy_args ''x'') = Inl (Error InvalidIndex
  ''Invalid BIP-32 index: The index must be a non-negative decimal integer less than 2147483648.'')"
  by (simp add: bip32_checkArgs_def toy_args_def toy_curve_def toy_parent_def apostrophe_def
        indexPartOf_def isDecimal_def isDigit_def)

lemma barren_last_index:
  "deriveNode barren_shared (PrivateKey [9]) [0] [] 4294967295 True 3 7 (Some 7) toy_curve =
     Inl (Error InvalidIndex ''Invalid BIP-32 index: Must be a non-negative integer.'')"
  by (simp add: deriveNode.simps deriveNode_try_def barren_shared_def validateBIP32Index_def
        MAX_BIP_32_INDEX_def)

theorem deriveChildKey_failures_witness:
  "deriveNode_try flaky_shared (PrivateKey [9]) [0] 0 True 3 7 (Some 7) toy_curve =
     Inl (Error OtherFailure ''provider unavailable'')
   \<and> deriveNode flaky_shared (PrivateKey [9]) [0] [] 0 True 3 7 (Some 7) toy_curve =
     deriveNode flaky_shared (PrivateKey [9]) [1] [] (0 + 1) True 3 7 (Some 7) toy_curve
   \<and> deriveNode barren_shared (PrivateKey [9]) [0] [] 4294967295 True 3 7 (Some 7) toy_curve =
     Inl (Error InvalidIndex ''Invalid BIP-32 index: Must be a non-negative integer.'')
   \<and> (\<exists>k. 4294967295 < k
         \<and> (validateBIP32Index k =
              Inl (Error InvalidIndex ''Invalid BIP-32 index: Must be a non-negative integer.'')
            \<or> newEntropy barren_shared (PrivateKey [9]) [] k True toy_curve =
              Inl (Error InvalidIndex ''Invalid BIP-32 index: Must be a non-negative integer.'')))
   \<and> bip32_deriveChildKey toy_shared (toy_args ''x'') = Inl (Error InvalidIndex
  ''Invalid BIP-32 index: The index must be a non-negative decimal integer less than 2147483648.'')
   \<and> bip32_checkArgs (toy_args ''x'') = Inl (Error InvalidIndex
  ''Invalid BIP-32 index: The index must be a non-negative decimal integer less than 2147483648.'')"
proof -
  let ?msg = "''Invalid BIP-32 index: The index must be a non-negative decimal integer less than 2147483648.''"
  let ?refused = "Error InvalidIndex ''Invalid BIP-32 index: Must be a non-negative integer.''"
  have a: "deriveNode_try flaky_shared (PrivateKey [9]) [0] 0 True 3 7 (Some 7) toy_curve =
      Inl (Error OtherFailure ''provider unavailable'')
      \<and> validateBIP32Index (0 + 1) = Inr ()
      \<and> newEntropy flaky_shared (PrivateKey [9]) [] (0 + 1) True toy_curve = Inr [1]"
    by (simp add: toy_newEntropy validateBIP32Index_def MAX_BIP_32_INDEX_def)
       (simp add: deriveNode_try_def flaky_shared_def)
  note b = barren_last_index
  note c = toy_checkArgs_x
  note t = deriveChildKey_failures [of flaky_shared "PrivateKey [9]" "[0]" 0 True 3 7 "Some 7"
      toy_curve "[]" "toy_args ''x''"]
  note u = deriveChildKey_failures [of barren_shared "PrivateKey [9]" "[0]" 4294967295 True 3 7
      "Some 7" toy_curve "[]" "toy_args ''x''"]
  note v = deriveChildKey_failures [of toy_shared "PrivateKey [9]" "[0]" 0 True 3 7 "Some 7"
      toy_curve "[]" "toy_args ''x''"]
  from t a have 1: "deriveNode flaky_shared (PrivateKey [9]) [0] [] 0 True 3 7 (Some 7) toy_curve =
     deriveNode flaky_shared (PrivateKey [9]) [1] [] (0 + 1) True 3 7 (Some 7) toy_curve"
    by blast
  from u b have 2: "\<exists>k. 4294967295 < k
         \<and> (validateBIP32Index k = Inl ?refused
            \<or> newEntropy barren_shared (PrivateKey [9]) [] k True toy_curve = Inl ?refused)"
    by blast
  from v c have 3: "bip32_deriveChildKey toy_shared (toy_args ''x'') = Inl (Error InvalidIndex ?msg)"
    by blast
  from a 1 b 2 3 c show ?thesis by blast
qed

section \<open>The index of the derived child\<close>







section \<open>The argument checks of \<^verbatim>\<open>deriveChildKey\<close>\<close>

lemma apostrophe_not_digit: "\<not> isDigit apostrophe"
  by (simp add: isDigit_def apostrophe_def)

lemma isDecimal_no_apostrophe: "isDecimal s \<Longrightarrow> apostrophe \<notin> set s"
  using apostrophe_not_digit by (auto simp: isDecimal_def)

lemma indexPartOf_plain: "apostrophe \<notin> set s \<Longrightarrow> indexPartOf s = s"
  by (auto simp: indexPartOf_def)

lemma indexPartOf_hardened: "apostrophe \<notin> set s \<Longrightarrow> indexPartOf (s @ apostrophe # t) = s"
  by (auto simp: indexPartOf_def takeWhile_tail)

lemma specSegment_indexPart:
  assumes "specSegment p"
  shows "isDecimal (indexPartOf p) \<and> parseInt (indexPartOf p) < BIP_32_HARDENED_OFFSET"
proof -
  from assms consider (plain) "isDecimal p" "parseInt p < BIP_32_HARDENED_OFFSET"
    | (hardened) "p \<noteq> []" "last p = apostrophe" "isDecimal (butlast p)"
        "parseInt (butlast p) < BIP_32_HARDENED_OFFSET"
    by (auto simp: specSegment_def)
  then show ?thesis
  proof cases
    case plain
    then show ?thesis by (simp add: indexPartOf_plain isDecimal_no_apostrophe)
  next
    case hardened
    from hardened(1,2) have "p = butlast p @ apostrophe # []"
      by (metis append_butlast_last_id)
    then have "indexPartOf p = butlast p"
      using indexPartOf_hardened [OF isDecimal_no_apostrophe [OF hardened(3)], of "[]"]
      by simp
    with hardened show ?thesis by simp
  qed
qed

lemma bip32_checkArgs_index:
  assumes "path args = PathString p" and "name (curve args) = ''secp256k1''"
    and "node args = Some nd"
    and "apostrophe \<in> set p \<longrightarrow> privateKeyBytes nd \<noteq> None"
  shows "bip32_checkArgs args =
     (if isDecimal (indexPartOf p) \<and> parseInt (indexPartOf p) < BIP_32_HARDENED_OFFSET
      then Inr (nd, apostrophe \<in> set p, parseInt (indexPartOf p))
      else Inl (Error InvalidIndex
  ''Invalid BIP-32 index: The index must be a non-negative decimal integer less than 2147483648.''))"
proof (cases "apostrophe \<in> set p")
  case True
  with assms(4) obtain pk where "privateKeyBytes nd = Some pk" by auto
  with True assms(1-3) show ?thesis
    unfolding bip32_checkArgs_def Let_def by (simp add: not_le)
next
  case False
  with assms(1-3) show ?thesis
    unfolding bip32_checkArgs_def Let_def by (simp add: not_le)
qed

lemma bip32_checkArgs_not_string:
  "path args = PathBytes b \<Longrightarrow>
   bip32_checkArgs args = Inl (Error InvalidParameters ''Invalid path: Must be a string.'')"
  by (simp add: bip32_checkArgs_def)

lemma bip32_checkArgs_curve:
  "path args = PathString p \<Longrightarrow> name (curve args) \<noteq> ''secp256k1'' \<Longrightarrow>
   bip32_checkArgs args =
     Inl (Error InvalidParameters ''Invalid curve: Only secp256k1 is supported by BIP-32.'')"
  by (simp add: bip32_checkArgs_def)

lemma bip32_checkArgs_no_node:
  "path args = PathString p \<Longrightarrow> name (curve args) = ''secp256k1'' \<Longrightarrow> node args = None \<Longrightarrow>
   bip32_checkArgs args =
     Inl (Error InvalidParameters ''Invalid parameters: Must specify a node to derive from.'')"
  by (simp add: bip32_checkArgs_def)

lemma bip32_checkArgs_hardened_public:
  "path args = PathString p \<Longrightarrow> name (curve args) = ''secp256k1'' \<Longrightarrow> node args = Some nd
   \<Longrightarrow> apostrophe \<in> set p \<Longrightarrow> privateKeyBytes nd = None \<Longrightarrow>
   bip32_checkArgs args =
     Inl (Error InvalidParameters
       ''Invalid parameters: Cannot derive hardened child keys without a private key.'')"
  by (simp add: bip32_checkArgs_def)

lemma bip32_deriveChildKey_checked:
  "bip32_checkArgs args = Inl e \<Longrightarrow> bip32_deriveChildKey sh args = Inl e"
  by (simp add: bip32_deriveChildKey_def)

lemma bip32_checkArgs_InvalidParameters:
  assumes "(\<exists>b. path args = PathBytes b) \<or> node args = None
      \<or> (\<exists>p nd. path args = PathString p \<and> node args = Some nd
            \<and> apostrophe \<in> set p \<and> privateKeyBytes nd = None)"
  shows "\<exists>m. bip32_checkArgs args = Inl (Error InvalidParameters m)"
proof (cases "path args")
  case (PathBytes b)
  then show ?thesis by (auto dest: bip32_checkArgs_not_string)
next
  case (PathString p)
  show ?thesis
  proof (cases "name (curve args) = ''secp256k1''")
    case False
    from bip32_checkArgs_curve [OF PathString False] show ?thesis by blast
  next
    case True
    show ?thesis
    proof (cases "node args")
      case None
      from bip32_checkArgs_no_node [OF PathString True None] show ?thesis by blast
    next
      case (Some nd)
      with assms PathString have "apostrophe \<in> set p" "privateKeyBytes nd = None" by auto
      from bip32_checkArgs_hardened_public [OF PathString True Some this]
      show ?thesis by blast
    qed
  qed
qed

lemma bip32_checkArgs_private_key:
  assumes "node args = Some nd" and "privateKeyBytes nd = Some pk"
  shows "bip32_checkArgs args \<noteq> Inl (Error InvalidParameters
     ''Invalid parameters: Cannot derive hardened child keys without a private key.'')"
proof (cases "path args")
  case (PathBytes b)
  then show ?thesis by (simp add: bip32_checkArgs_not_string)
next
  case (PathString p)
  show ?thesis
  proof (cases "name (curve args) = ''secp256k1''")
    case False
    with PathString show ?thesis by (simp add: bip32_checkArgs_curve)
  next
    case True
    from assms have "apostrophe \<in> set p \<longrightarrow> privateKeyBytes nd \<noteq> None" by simp
    from bip32_checkArgs_index [OF PathString True assms(1) this]
    show ?thesis by simp
  qed
qed

lemma toy_args_ok:
  "path (toy_args p) = PathString p" "name (curve (toy_args p)) = ''secp256k1''"
  "node (toy_args p) = Some toy_parent"
  "apostrophe \<in> set p \<longrightarrow> privateKeyBytes toy_parent \<noteq> None"
  by (simp_all add: toy_args_def toy_curve_def toy_parent_def)

lemma indexPart_0h0: "indexPartOf (''0'' @ [apostrophe] @ ''0'') = ''0''"
  by (simp add: indexPartOf_def apostrophe_def)

lemma decimal_0: "isDecimal ''0'' \<and> parseInt ''0'' = 0"
  by (simp add: isDecimal_def isDigit_def parseInt_def)

text \<open>
  C6: \<^verbatim>\<open>deriveChildKey\<close> fails with \<open>InvalidParameters\<close> when the path is not a string,
  when no parent node is given, and when the path contains an apostrophe and the
  parent node has no private key. The failure is that of the argument checks, so it
  is the same whatever the derivation helpers are: no attempt is made and nothing is
  retried (first conjunct). From a parent node with a private key the check of the
  hardened flag does not fail (second conjunct); on the secp256k1 curve the checks of
  such a call do not fail with \<open>InvalidParameters\<close> at all (third conjunct).
\<close>

theorem bip32_deriveChildKey_invalid_parameters:
  "((\<exists>b. path args = PathBytes b) \<or> node args = None
      \<or> (\<exists>p nd. path args = PathString p \<and> node args = Some nd
            \<and> apostrophe \<in> set p \<and> privateKeyBytes nd = None)
     \<longrightarrow> (\<exists>m. bip32_checkArgs args = Inl (Error InvalidParameters m)
            \<and> bip32_deriveChildKey sh args = Inl (Error InvalidParameters m)))
   \<and> (\<forall>nd pk. node args = Some nd \<and> privateKeyBytes nd = Some pk
        \<longrightarrow> bip32_checkArgs args \<noteq> Inl (Error InvalidParameters
              ''Invalid parameters: Cannot derive hardened child keys without a private key.''))
   \<and> (\<forall>p nd pk m. path args = PathString p \<and> name (curve args) = ''secp256k1''
          \<and> node args = Some nd \<and> privateKeyBytes nd = Some pk
        \<longrightarrow> bip32_checkArgs args \<noteq> Inl (Error InvalidParameters m))"
proof (intro conjI allI impI)
  assume "(\<exists>b. path args = PathBytes b) \<or> node args = None
      \<or> (\<exists>p nd. path args = PathString p \<and> node args = Some nd
            \<and> apostrophe \<in> set p \<and> privateKeyBytes nd = None)"
  from bip32_checkArgs_InvalidParameters [OF this]
  obtain m where "bip32_checkArgs args = Inl (Error InvalidParameters m)" ..
  then show "\<exists>m. bip32_checkArgs args = Inl (Error InvalidParameters m)
      \<and> bip32_deriveChildKey sh args = Inl (Error InvalidParameters m)"
    by (auto dest: bip32_deriveChildKey_checked)
next
  fix nd pk
  assume "node args = Some nd \<and> privateKeyBytes nd = Some pk"
  then show "bip32_checkArgs args \<noteq> Inl (Error InvalidParameters
      ''Invalid parameters: Cannot derive hardened child keys without a private key.'')"
    by (auto dest: bip32_checkArgs_private_key)
next
  fix p nd pk m
  assume a: "path args = PathString p \<and> name (curve args) = ''secp256k1''
      \<and> node args = Some nd \<and> privateKeyBytes nd = Some pk"
  then have "bip32_checkArgs args =
     (if isDecimal (indexPartOf p) \<and> parseInt (indexPartOf p) < BIP_32_HARDENED_OFFSET
      then Inr (nd, apostrophe \<in> set p, parseInt (indexPartOf p))
      else Inl (Error InvalidIndex
  ''Invalid BIP-32 index: The index must be a non-negative decimal integer less than 2147483648.''))"
    by (intro bip32_checkArgs_index) auto
  then show "bip32_checkArgs args \<noteq> Inl (Error InvalidParameters m)"
    by simp
qed

theorem bip32_deriveChildKey_invalid_parameters_witness:
  "bip32_deriveChildKey toy_shared
       \<lparr> path = PathBytes [1], curve = toy_curve, node = Some toy_parent, network = None \<rparr> =
     Inl (Error InvalidParameters ''Invalid path: Must be a string.'')
   \<and> bip32_deriveChildKey toy_shared
       \<lparr> path = PathString ''0'', curve = toy_curve, node = None, network = None \<rparr> =
     Inl (Error InvalidParameters ''Invalid parameters: Must specify a node to derive from.'')
   \<and> bip32_deriveChildKey toy_shared
       \<lparr> path = PathString (''0'' @ [apostrophe]), curve = toy_curve,
         node = Some public_parent, network = None \<rparr> =
     Inl (Error InvalidParameters
       ''Invalid parameters: Cannot derive hardened child keys without a private key.'')
   \<and> bip32_checkArgs (toy_args (''0'' @ [apostrophe])) \<noteq>
     Inl (Error InvalidParameters
       ''Invalid parameters: Cannot derive hardened child keys without a private key.'')
   \<and> bip32_checkArgs (toy_args (''0'' @ [apostrophe])) \<noteq>
     Inl (Error InvalidParameters ''Invalid path: Must be a string.'')
   \<and> bip32_deriveChildKey toy_shared
       \<lparr> path = PathString ''0'', curve = other_curve, node = None, network = None \<rparr> =
     Inl (Error InvalidParameters ''Invalid curve: Only secp256k1 is supported by BIP-32.'')"
proof (intro conjI)
  let ?a = "\<lparr> path = PathBytes [1], curve = toy_curve, node = Some toy_parent,
      network = None \<rparr>"
  have "\<exists>b. path ?a = PathBytes b" by simp
  with bip32_deriveChildKey_invalid_parameters [of ?a toy_shared]
  obtain m where "bip32_checkArgs ?a = Inl (Error InvalidParameters m)"
    "bip32_deriveChildKey toy_shared ?a = Inl (Error InvalidParameters m)"
    by blast
  then show "bip32_deriveChildKey toy_shared ?a =
      Inl (Error InvalidParameters ''Invalid path: Must be a string.'')"
    by (simp add: bip32_checkArgs_def)
next
  let ?a = "\<lparr> path = PathString ''0'', curve = toy_curve, node = None, network = None \<rparr>"
  have "node ?a = None" by simp
  with bip32_deriveChildKey_invalid_parameters [of ?a toy_shared]
  obtain m where "bip32_checkArgs ?a = Inl (Error InvalidParameters m)"
    "bip32_deriveChildKey toy_shared ?a = Inl (Error InvalidParameters m)"
    by blast
  then show "bip32_deriveChildKey toy_shared ?a =
      Inl (Error InvalidParameters ''Invalid parameters: Must specify a node to derive from.'')"
    by (simp add: bip32_checkArgs_def toy_curve_def)
next
  let ?a = "\<lparr> path = PathString (''0'' @ [apostrophe]), curve = toy_curve,
      node = Some public_parent, network = None \<rparr>"
  have "\<exists>p nd. path ?a = PathString p \<and> node ?a = Some nd
      \<and> apostrophe \<in> set p \<and> privateKeyBytes nd = None"
    by (simp add: public_parent_def)
  with bip32_deriveChildKey_invalid_parameters [of ?a toy_shared]
  obtain m where "bip32_checkArgs ?a = Inl (Error InvalidParameters m)"
    "bip32_deriveChildKey toy_shared ?a = Inl (Error InvalidParameters m)"
    by blast
  then show "bip32_deriveChildKey toy_shared ?a =
      Inl (Error InvalidParameters
        ''Invalid parameters: Cannot derive hardened child keys without a private key.'')"
    by (simp add: bip32_checkArgs_def toy_curve_def public_parent_def)
next
  let ?a = "toy_args (''0'' @ [apostrophe])"
  have "node ?a = Some toy_parent \<and> privateKeyBytes toy_parent = Some [9]"
    by (simp add: toy_args_def toy_parent_def)
  with bip32_deriveChildKey_invalid_parameters [of ?a toy_shared]
  show "bip32_checkArgs ?a \<noteq>
      Inl (Error InvalidParameters
        ''Invalid parameters: Cannot derive hardened child keys without a private key.'')"
    by blast
next
  let ?a = "toy_args (''0'' @ [apostrophe])"
  have "path ?a = PathString (''0'' @ [apostrophe]) \<and> name (curve ?a) = ''secp256k1''
      \<and> node ?a = Some toy_parent \<and> privateKeyBytes toy_parent = Some [9]"
    by (simp add: toy_args_def toy_curve_def toy_parent_def)
  with bip32_deriveChildKey_invalid_parameters [of ?a toy_shared]
  show "bip32_checkArgs ?a \<noteq> Inl (Error InvalidParameters ''Invalid path: Must be a string.'')"
    by blast
next
  let ?a = "\<lparr> path = PathString ''0'', curve = other_curve, node = None, network = None \<rparr>"
  have "node ?a = None" by simp
  with bip32_deriveChildKey_invalid_parameters [of ?a toy_shared]
  obtain m where "bip32_checkArgs ?a = Inl (Error InvalidParameters m)"
    "bip32_deriveChildKey toy_shared ?a = Inl (Error InvalidParameters m)"
    by blast
  then show "bip32_deriveChildKey toy_shared ?a =
      Inl (Error InvalidParameters ''Invalid curve: Only secp256k1 is supported by BIP-32.'')"
    by (simp add: bip32_checkArgs_def other_curve_def)
qed

text \<open>
  C7, as stated, fails: the source tests only the text before the first apostrophe, so
  the segment \<^verbatim>\<open>0'0\<close>, which the grammar of the specification excludes, is accepted as
  the hardened index 0.
\<close>

theorem bip32_segment_trailing_text_counterexample:
  "bip32_checkArgs (toy_args (''0'' @ [apostrophe] @ ''0'')) = Inr (toy_parent, True, 0)
   \<and> \<not> specSegment (''0'' @ [apostrophe] @ ''0'')"
proof
  show "bip32_checkArgs (toy_args (''0'' @ [apostrophe] @ ''0'')) = Inr (toy_parent, True, 0)"
    by (simp only: bip32_checkArgs_index [OF toy_args_ok] indexPart_0h0 decimal_0)
       (simp add: BIP_32_HARDENED_OFFSET_def)
  show "\<not> specSegment (''0'' @ [apostrophe] @ ''0'')"
    by (simp add: specSegment_def isDecimal_def apostrophe_not_digit)
qed

text \<open>
  C7, amended: for a string path on the secp256k1 curve and a parent node (with a
  private key when the path contains an apostrophe), the segment is accepted exactly
  when the text before its first apostrophe is a non-empty run of decimal digits whose
  value is below \<open>2\<^sup>3\<^sup>1\<close>; the child index is that value and the segment is hardened
  exactly when it contains an apostrophe. Every other segment fails with
  \<open>InvalidIndex\<close>. Every segment of the grammar of the specification is accepted, and
  \<^verbatim>\<open>2147483648\<close> is rejected.
\<close>

theorem bip32_segment_accepted:
  assumes "path args = PathString p" and "name (curve args) = ''secp256k1''"
    and "node args = Some nd"
    and "apostrophe \<in> set p \<longrightarrow> privateKeyBytes nd \<noteq> None"
  shows "(isDecimal (indexPartOf p) \<and> parseInt (indexPartOf p) < BIP_32_HARDENED_OFFSET
            \<longrightarrow> bip32_checkArgs args =
                Inr (nd, apostrophe \<in> set p, parseInt (indexPartOf p)))
       \<and> (\<not> (isDecimal (indexPartOf p) \<and> parseInt (indexPartOf p) < BIP_32_HARDENED_OFFSET)
            \<longrightarrow> bip32_checkArgs args = Inl (Error InvalidIndex
  ''Invalid BIP-32 index: The index must be a non-negative decimal integer less than 2147483648.'')
              \<and> bip32_deriveChildKey sh args = Inl (Error InvalidIndex
  ''Invalid BIP-32 index: The index must be a non-negative decimal integer less than 2147483648.''))
       \<and> (specSegment p
            \<longrightarrow> bip32_checkArgs args =
                Inr (nd, apostrophe \<in> set p, parseInt (indexPartOf p)))
       \<and> (p = ''2147483648''
            \<longrightarrow> bip32_checkArgs args = Inl (Error InvalidIndex
  ''Invalid BIP-32 index: The index must be a non-negative decimal integer less than 2147483648.''))"
proof -
  note chk = bip32_checkArgs_index [OF assms]
  have big: "\<not> parseInt (indexPartOf ''2147483648'') < BIP_32_HARDENED_OFFSET"
    by (simp add: indexPartOf_def apostrophe_def parseInt_def BIP_32_HARDENED_OFFSET_def)
  show ?thesis
  proof (intro conjI impI)
    assume "isDecimal (indexPartOf p) \<and> parseInt (indexPartOf p) < BIP_32_HARDENED_OFFSET"
    with chk show "bip32_checkArgs args =
        Inr (nd, apostrophe \<in> set p, parseInt (indexPartOf p))"
      by simp
  next
    assume "\<not> (isDecimal (indexPartOf p) \<and> parseInt (indexPartOf p) < BIP_32_HARDENED_OFFSET)"
    with chk show "bip32_checkArgs args = Inl (Error InvalidIndex
  ''Invalid BIP-32 index: The index must be a non-negative decimal integer less than 2147483648.'')"
      by simp
    then show "bip32_deriveChildKey sh args = Inl (Error InvalidIndex
  ''Invalid BIP-32 index: The index must be a non-negative decimal integer less than 2147483648.'')"
      by (rule bip32_deriveChildKey_checked)
  next
    assume "specSegment p"
    from specSegment_indexPart [OF this] chk
    show "bip32_checkArgs args = Inr (nd, apostrophe \<in> set p, parseInt (indexPartOf p))"
      by simp
  next
    assume "p = ''2147483648''"
    with chk big show "bip32_checkArgs args = Inl (Error InvalidIndex
  ''Invalid BIP-32 index: The index must be a non-negative decimal integer less than 2147483648.'')"
      by simp
  qed
qed

theorem bip32_segment_accepted_witness:
  "bip32_checkArgs (toy_args (''0'' @ [apostrophe] @ ''0'')) = Inr (toy_parent, True, 0)
   \<and> bip32_checkArgs (toy_args ''2147483648'') = Inl (Error InvalidIndex
  ''Invalid BIP-32 index: The index must be a non-negative decimal integer less than 2147483648.'')
   \<and> bip32_deriveChildKey toy_shared (toy_args ''x'') = Inl (Error InvalidIndex
  ''Invalid BIP-32 index: The index must be a non-negative decimal integer less than 2147483648.'')
   \<and> bip32_checkArgs (toy_args (''7'' @ [apostrophe])) = Inr (toy_parent, True, 7)"
proof (intro conjI)
  have "isDecimal (indexPartOf (''0'' @ [apostrophe] @ ''0''))
      \<and> parseInt (indexPartOf (''0'' @ [apostrophe] @ ''0'')) < BIP_32_HARDENED_OFFSET"
    by (simp only: indexPart_0h0 decimal_0) (simp add: BIP_32_HARDENED_OFFSET_def)
  with bip32_segment_accepted [OF toy_args_ok, of "''0'' @ [apostrophe] @ ''0''" toy_shared]
  have "bip32_checkArgs (toy_args (''0'' @ [apostrophe] @ ''0'')) =
      Inr (toy_parent, apostrophe \<in> set (''0'' @ [apostrophe] @ ''0''),
           parseInt (indexPartOf (''0'' @ [apostrophe] @ ''0'')))"
    by blast
  then show "bip32_checkArgs (toy_args (''0'' @ [apostrophe] @ ''0'')) =
      Inr (toy_parent, True, 0)"
    by (simp only: indexPart_0h0 decimal_0) (simp add: apostrophe_def)
next
  from bip32_segment_accepted [OF toy_args_ok, of "''2147483648''" toy_shared]
  show "bip32_checkArgs (toy_args ''2147483648'') = Inl (Error InvalidIndex
  ''Invalid BIP-32 index: The index must be a non-negative decimal integer less than 2147483648.'')"
    by blast
next
  have "\<not> (isDecimal (indexPartOf ''x'') \<and> parseInt (indexPartOf ''x'') < BIP_32_HARDENED_OFFSET)"
    by (simp add: indexPartOf_def apostrophe_def isDecimal_def isDigit_def)
  with bip32_segment_accepted [OF toy_args_ok, of "''x''" toy_shared]
  show "bip32_deriveChildKey toy_shared (toy_args ''x'') = Inl (Error InvalidIndex
  ''Invalid BIP-32 index: The index must be a non-negative decimal integer less than 2147483648.'')"
    by blast
next
  have seg: "specSegment (''7'' @ [apostrophe])"
    by (simp add: specSegment_def isDecimal_def isDigit_def parseInt_def
          BIP_32_HARDENED_OFFSET_def)
  have idx: "indexPartOf (''7'' @ [apostrophe]) = ''7''"
    by (simp add: indexPartOf_def apostrophe_def)
  from seg bip32_segment_accepted [OF toy_args_ok, of "''7'' @ [apostrophe]" toy_shared]
  have "bip32_checkArgs (toy_args (''7'' @ [apostrophe])) =
      Inr (toy_parent, apostrophe \<in> set (''7'' @ [apostrophe]),
           parseInt (indexPartOf (''7'' @ [apostrophe])))"
    by blast
  then show "bip32_checkArgs (toy_args (''7'' @ [apostrophe])) = Inr (toy_parent, True, 7)"
    by (simp only: idx) (simp add: parseInt_def)
qed

section \<open>Ethereum addresses\<close>

lemma sliceLast_32: "length h = 32 \<Longrightarrow> sliceLast 20 h = drop 12 h \<and> length (sliceLast 20 h) = 20"
  by (simp add: sliceLast_def)

lemma privateKeyToEthAddress_invalid:
  "\<not> isValidBytesKey key 32 \<Longrightarrow>
   privateKeyToEthAddress P secp key =
     Inl (Error InvalidPrivateKey ''Invalid key: The key must be a 32-byte, non-zero Uint8Array.'')"
  by (simp add: privateKeyToEthAddress_def BYTES_KEY_LENGTH_def)

lemma publicKeyToEthAddress_eq:
  "publicKeyLength secp = 65 \<Longrightarrow>
   publicKeyToEthAddress P secp pub =
     (if isValidBytesKey pub 65
      then Inr (sliceLast 20 (keccak256 P (drop 1 pub)))
      else Inl (Error InvalidPublicKey
                  ''Invalid key: The key must be a 65-byte, non-zero Uint8Array.''))"
  by (simp add: publicKeyToEthAddress_def)

lemma privateKeyToEthAddress_valid:
  "isValidBytesKey key 32 \<Longrightarrow> getPublicKey secp key (Some False) = Inr pub \<Longrightarrow>
   isValidBytesKey pub 65 \<Longrightarrow> publicKeyLength secp = 65 \<Longrightarrow>
   privateKeyToEthAddress P secp key = Inr (sliceLast 20 (keccak256 P (drop 1 pub)))"
  by (simp add: privateKeyToEthAddress_def BYTES_KEY_LENGTH_def publicKeyToEthAddress_eq)

text \<open>
  C8: \<^verbatim>\<open>privateKeyToEthAddress\<close> fails with a validation error unless the key has 32
  bytes and is not zero, in particular on every 31-byte input; on a valid key whose
  uncompressed public key has 65 bytes it returns the last 20 bytes of the Keccak-256
  hash of that public key without its first byte. \<^verbatim>\<open>publicKeyToEthAddress\<close> requires a
  non-zero key of 65 bytes and returns the same strip, hash and truncation. The last
  20 bytes of a 32-byte hash are its bytes 12 to 31.
\<close>

theorem ethAddress_functions:
  "(\<not> isValidBytesKey key 32 \<longrightarrow>
      privateKeyToEthAddress P secp key =
        Inl (Error InvalidPrivateKey
               ''Invalid key: The key must be a 32-byte, non-zero Uint8Array.''))
   \<and> (length key = 31 \<longrightarrow>
      privateKeyToEthAddress P secp key =
        Inl (Error InvalidPrivateKey
               ''Invalid key: The key must be a 32-byte, non-zero Uint8Array.''))
   \<and> (\<forall>pub. isValidBytesKey key 32 \<and> getPublicKey secp key (Some False) = Inr pub
          \<and> isValidBytesKey pub 65 \<and> publicKeyLength secp = 65
        \<longrightarrow> privateKeyToEthAddress P secp key =
              Inr (sliceLast 20 (keccak256 P (drop 1 pub))))
   \<and> (\<forall>pub. publicKeyLength secp = 65 \<longrightarrow>
        publicKeyToEthAddress P secp pub =
          (if isValidBytesKey pub 65
           then Inr (sliceLast 20 (keccak256 P (drop 1 pub)))
           else Inl (Error InvalidPublicKey
                       ''Invalid key: The key must be a 65-byte, non-zero Uint8Array.'')))
   \<and> (\<forall>pub. length (keccak256 P (drop 1 pub)) = 32 \<longrightarrow>
        sliceLast 20 (keccak256 P (drop 1 pub)) = drop 12 (keccak256 P (drop 1 pub))
        \<and> length (sliceLast 20 (keccak256 P (drop 1 pub))) = 20)"
proof (intro conjI allI impI)
  assume "\<not> isValidBytesKey key 32"
  then show "privateKeyToEthAddress P secp key =
      Inl (Error InvalidPrivateKey ''Invalid key: The key must be a 32-byte, non-zero Uint8Array.'')"
    by (rule privateKeyToEthAddress_invalid)
next
  assume "length key = 31"
  then have "\<not> isValidBytesKey key 32" by (simp add: isValidBytesKey_def)
  then show "privateKeyToEthAddress P secp key =
      Inl (Error InvalidPrivateKey ''Invalid key: The key must be a 32-byte, non-zero Uint8Array.'')"
    by (rule privateKeyToEthAddress_invalid)
next
  fix pub
  assume "isValidBytesKey key 32 \<and> getPublicKey secp key (Some False) = Inr pub
      \<and> isValidBytesKey pub 65 \<and> publicKeyLength secp = 65"
  then show "privateKeyToEthAddress P secp key = Inr (sliceLast 20 (keccak256 P (drop 1 pub)))"
    by (intro privateKeyToEthAddress_valid) auto
next
  fix pub
  assume "publicKeyLength secp = 65"
  then show "publicKeyToEthAddress P secp pub =
      (if isValidBytesKey pub 65
       then Inr (sliceLast 20 (keccak256 P (drop 1 pub)))
       else Inl (Error InvalidPublicKey
                   ''Invalid key: The key must be a 65-byte, non-zero Uint8Array.''))"
    by (rule publicKeyToEthAddress_eq)
next
  fix pub
  assume "length (keccak256 P (drop 1 pub)) = 32"
  then show "sliceLast 20 (keccak256 P (drop 1 pub)) = drop 12 (keccak256 P (drop 1 pub))"
    by (simp add: sliceLast_32)
next
  fix pub
  assume "length (keccak256 P (drop 1 pub)) = 32"
  then show "length (sliceLast 20 (keccak256 P (drop 1 pub))) = 20"
    by (simp add: sliceLast_32)
qed

lemma toy_key_valid: "isValidBytesKey toy_key 32"
  by (simp add: isValidBytesKey_def toy_key_def)

lemma toy_pub: "getPublicKey toy_curve toy_key (Some False) = Inr (4 # toy_key @ toy_key)"
  by (simp add: toy_curve_def)

lemma toy_pub_valid: "isValidBytesKey (4 # toy_key @ toy_key) 65"
  by (simp add: isValidBytesKey_def toy_key_def)

lemma toy_keccak_length: "length (keccak256 toy_primitives m) = 32"
  by (simp add: toy_primitives_def)

theorem ethAddress_functions_witness:
  "privateKeyToEthAddress toy_primitives toy_curve (replicate 31 7) =
     Inl (Error InvalidPrivateKey ''Invalid key: The key must be a 32-byte, non-zero Uint8Array.'')
   \<and> privateKeyToEthAddress toy_primitives toy_curve (replicate 32 0) =
     Inl (Error InvalidPrivateKey ''Invalid key: The key must be a 32-byte, non-zero Uint8Array.'')
   \<and> privateKeyToEthAddress toy_primitives toy_curve toy_key =
     Inr (sliceLast 20 (keccak256 toy_primitives (drop 1 (4 # toy_key @ toy_key))))
   \<and> publicKeyToEthAddress toy_primitives toy_curve (4 # toy_key @ toy_key) =
     Inr (sliceLast 20 (keccak256 toy_primitives (drop 1 (4 # toy_key @ toy_key))))
   \<and> length (sliceLast 20 (keccak256 toy_primitives (drop 1 (4 # toy_key @ toy_key)))) = 20"
proof (intro conjI)
  have "length (replicate 31 (7 :: 8 word)) = 31" by simp
  with ethAddress_functions [of "replicate 31 7" toy_primitives toy_curve]
  show "privateKeyToEthAddress toy_primitives toy_curve (replicate 31 7) =
     Inl (Error InvalidPrivateKey ''Invalid key: The key must be a 32-byte, non-zero Uint8Array.'')"
    by blast
next
  have "\<not> isValidBytesKey (replicate 32 0) 32" by (simp add: isValidBytesKey_def)
  with ethAddress_functions [of "replicate 32 0" toy_primitives toy_curve]
  show "privateKeyToEthAddress toy_primitives toy_curve (replicate 32 0) =
     Inl (Error InvalidPrivateKey ''Invalid key: The key must be a 32-byte, non-zero Uint8Array.'')"
    by blast
next
  have len: "publicKeyLength toy_curve = 65" by (simp add: toy_curve_def)
  from ethAddress_functions [of toy_key toy_primitives toy_curve]
    toy_key_valid toy_pub toy_pub_valid len
  show "privateKeyToEthAddress toy_primitives toy_curve toy_key =
     Inr (sliceLast 20 (keccak256 toy_primitives (drop 1 (4 # toy_key @ toy_key))))"
    by blast
next
  have len: "publicKeyLength toy_curve = 65" by (simp add: toy_curve_def)
  from ethAddress_functions [of toy_key toy_primitives toy_curve] len
  have "publicKeyToEthAddress toy_primitives toy_curve (4 # toy_key @ toy_key) =
      (if isValidBytesKey (4 # toy_key @ toy_key) 65
       then Inr (sliceLast 20 (keccak256 toy_primitives (drop 1 (4 # toy_key @ toy_key))))
       else Inl (Error InvalidPublicKey
                   ''Invalid key: The key must be a 65-byte, non-zero Uint8Array.''))"
    by blast
  with toy_pub_valid
  show "publicKeyToEthAddress toy_primitives toy_curve (4 # toy_key @ toy_key) =
     Inr (sliceLast 20 (keccak256 toy_primitives (drop 1 (4 # toy_key @ toy_key))))"
    by simp
next
  from ethAddress_functions [of toy_key toy_primitives toy_curve] toy_keccak_length
  show "length (sliceLast 20 (keccak256 toy_primitives (drop 1 (4 # toy_key @ toy_key)))) = 20"
    by blast
qed

section \<open>The BIP-39 master key\<close>

lemma fromExtendedKey_Inr:
  assumes "fromExtendedKey P pk cc mf d pf i nm = Inr n"
  shows "length cc = 32 \<and> length pk = 32
       \<and> (\<exists>c pub. getCurveByName P nm = Some c
            \<and> 0 < bytesToBigInt pk \<and> bytesToBigInt pk < curve_n c
            \<and> getPublicKey c pk (Some True) = Inr pub
            \<and> n = \<lparr> depth = d, masterFingerprint = mf, parentFingerprint = pf, index = i,
                    curveName = nm, privateKeyBytes = Some pk,
                    compressedPublicKeyBytes = pub, chainCodeBytes = cc,
                    fingerprint = getFingerprint P pub \<rparr>)"
  using assms
  by (auto simp: fromExtendedKey_def BYTES_KEY_LENGTH_def
           split: option.splits if_splits sum.splits)

lemma createBip39KeyFromSeed_Inr:
  assumes "createBip39KeyFromSeed P seed c = Inr n"
  shows "\<exists>pub rc rpub.
         getPublicKey c (take 32 (hmacSha512 P (secret c) seed)) (Some True) = Inr pub
       \<and> getCurveByName P (name c) = Some rc
       \<and> getPublicKey rc (take 32 (hmacSha512 P (secret c) seed)) (Some True) = Inr rpub
       \<and> length (hmacSha512 P (secret c) seed) = 64
       \<and> 0 < bytesToBigInt (take 32 (hmacSha512 P (secret c) seed))
       \<and> bytesToBigInt (take 32 (hmacSha512 P (secret c) seed)) < curve_n c
       \<and> n = \<lparr> depth = 0, masterFingerprint = Some (getFingerprint P pub),
               parentFingerprint = 0, index = 0, curveName = name c,
               privateKeyBytes = Some (take 32 (hmacSha512 P (secret c) seed)),
               compressedPublicKeyBytes = rpub,
               chainCodeBytes = drop 32 (hmacSha512 P (secret c) seed),
               fingerprint = getFingerprint P rpub \<rparr>"
proof -
  let ?key = "hmacSha512 P (secret c) seed"
  from assms obtain pub where pub: "getPublicKey c (take 32 ?key) (Some True) = Inr pub"
    and range: "0 < bytesToBigInt (take 32 ?key)" "bytesToBigInt (take 32 ?key) < curve_n c"
    and node: "fromExtendedKey P (take 32 ?key) (drop 32 ?key) (Some (getFingerprint P pub))
                 0 0 0 (name c) = Inr n"
    by (auto simp: createBip39KeyFromSeed_def Let_def BYTES_KEY_LENGTH_def
             split: if_splits sum.splits)
  from fromExtendedKey_Inr [OF node]
  obtain rc rpub where len: "length (drop 32 ?key) = 32"
    and rc: "getCurveByName P (name c) = Some rc"
      "getPublicKey rc (take 32 ?key) (Some True) = Inr rpub"
    and n: "n = \<lparr> depth = 0, masterFingerprint = Some (getFingerprint P pub),
               parentFingerprint = 0, index = 0, curveName = name c,
               privateKeyBytes = Some (take 32 ?key),
               compressedPublicKeyBytes = rpub,
               chainCodeBytes = drop 32 ?key,
               fingerprint = getFingerprint P rpub \<rparr>"
    by blast
  from len have "length ?key = 64" by simp
  with pub rc range n show ?thesis by blast
qed

lemma createBip39KeyFromSeed_out_of_range:
  assumes "\<not> (0 < bytesToBigInt (take 32 (hmacSha512 P (secret c) seed))
            \<and> bytesToBigInt (take 32 (hmacSha512 P (secret c) seed)) < curve_n c)"
  shows "createBip39KeyFromSeed P seed c =
     Inl (Error InvalidPrivateKey
  ''Invalid private key: The private key must larger than 0 and less than the curve order.'')"
  using assms by (simp add: createBip39KeyFromSeed_def Let_def BYTES_KEY_LENGTH_def)

lemma createBip39KeyFromSeed_returns:
  assumes "0 < bytesToBigInt (take 32 (hmacSha512 P (secret c) seed))"
    and "bytesToBigInt (take 32 (hmacSha512 P (secret c) seed)) < curve_n c"
    and "length (hmacSha512 P (secret c) seed) = 64"
    and "getPublicKey c (take 32 (hmacSha512 P (secret c) seed)) (Some True) = Inr pub"
    and "getCurveByName P (name c) = Some rc"
    and "bytesToBigInt (take 32 (hmacSha512 P (secret c) seed)) < curve_n rc"
    and "getPublicKey rc (take 32 (hmacSha512 P (secret c) seed)) (Some True) = Inr rpub"
  shows "createBip39KeyFromSeed P seed c =
     Inr \<lparr> depth = 0, masterFingerprint = Some (getFingerprint P pub),
           parentFingerprint = 0, index = 0, curveName = name c,
           privateKeyBytes = Some (take 32 (hmacSha512 P (secret c) seed)),
           compressedPublicKeyBytes = rpub,
           chainCodeBytes = drop 32 (hmacSha512 P (secret c) seed),
           fingerprint = getFingerprint P rpub \<rparr>"
  using assms
  by (simp add: createBip39KeyFromSeed_def fromExtendedKey_def Let_def BYTES_KEY_LENGTH_def)

lemma bytesToBigInt_zeros: "bytesToBigInt (replicate k 0 @ bs) = bytesToBigInt bs"
  by (induction k) (simp_all add: bytesToBigInt_def)

lemma toy_key_int: "bytesToBigInt toy_key = 5"
  by (simp add: toy_key_def bytesToBigInt_zeros) (simp add: bytesToBigInt_def)

lemma toy_hmac:
  "hmacSha512 toy_primitives (secret toy_curve) toy_seed = toy_key @ replicate 32 9"
  by (simp add: toy_primitives_def toy_key_def toy_seed_def)

lemma toy_hmac_parts:
  "take 32 (toy_key @ replicate 32 9) = toy_key"
  "drop 32 (toy_key @ replicate 32 9) = replicate 32 9"
  "length (toy_key @ replicate 32 9) = 64"
  "sliceLast 32 (toy_key @ replicate 32 9) = replicate 32 9"
  by (simp_all add: toy_key_def sliceLast_def)

lemma toy_hmac_empty:
  "bytesToBigInt (take 32 (hmacSha512 toy_primitives (secret toy_curve) [])) = 0"
  by (simp add: toy_primitives_def bytesToBigInt_zeros) (simp add: bytesToBigInt_def)

lemma toy_range:
  "0 < bytesToBigInt (take 32 (hmacSha512 toy_primitives (secret toy_curve) toy_seed))"
  "bytesToBigInt (take 32 (hmacSha512 toy_primitives (secret toy_curve) toy_seed))
     < curve_n toy_curve"
  by (simp_all only: toy_hmac toy_hmac_parts toy_key_int) (simp_all add: toy_curve_def)

lemma toy_compressed:
  "getPublicKey toy_curve (take 32 (hmacSha512 toy_primitives (secret toy_curve) toy_seed))
     (Some True) = Inr (2 # toy_key)"
  by (simp only: toy_hmac toy_hmac_parts) (simp add: toy_curve_def)

lemma toy_uncompressed:
  "getPublicKey toy_curve (take 32 (hmacSha512 toy_primitives (secret toy_curve) toy_seed))
     None = Inr (4 # toy_key @ toy_key)"
  by (simp only: toy_hmac toy_hmac_parts) (simp add: toy_curve_def)

lemma toy_registered: "getCurveByName toy_primitives (name toy_curve) = Some toy_curve"
  by (simp add: toy_primitives_def toy_curve_def)

lemma toy_hmac_length:
  "length (hmacSha512 toy_primitives (secret toy_curve) toy_seed) = 64"
  by (simp only: toy_hmac toy_hmac_parts)

text \<open>
  C4: \<^verbatim>\<open>createBip39KeyFromSeed\<close> takes the HMAC-SHA512 of the seed under the curve's
  secret. When the first 32 bytes, read as an integer, are not strictly between 0 and
  the curve order, it fails with the invalid-private-key error, at once (the function
  has no retry). Every node it returns has these first 32 bytes as its private key and
  the last 32 bytes of the 64-byte HMAC output as its chain code; and it does return a
  node when the integer is in range, the HMAC output has 64 bytes, the provider
  computes the public key, and the curve registered under the name of the curve
  accepts the key and computes its public key.
\<close>

theorem createBip39KeyFromSeed_key_material:
  "(\<not> (0 < bytesToBigInt (take 32 (hmacSha512 P (secret c) seed))
        \<and> bytesToBigInt (take 32 (hmacSha512 P (secret c) seed)) < curve_n c)
      \<longrightarrow> createBip39KeyFromSeed P seed c =
          Inl (Error InvalidPrivateKey
  ''Invalid private key: The private key must larger than 0 and less than the curve order.''))
   \<and> (\<forall>n. createBip39KeyFromSeed P seed c = Inr n
        \<longrightarrow> length (hmacSha512 P (secret c) seed) = 64
          \<and> privateKeyBytes n = Some (take 32 (hmacSha512 P (secret c) seed))
          \<and> chainCodeBytes n = sliceLast 32 (hmacSha512 P (secret c) seed)
          \<and> 0 < bytesToBigInt (take 32 (hmacSha512 P (secret c) seed))
          \<and> bytesToBigInt (take 32 (hmacSha512 P (secret c) seed)) < curve_n c)
   \<and> (\<forall>pub rc rpub. 0 < bytesToBigInt (take 32 (hmacSha512 P (secret c) seed))
          \<and> bytesToBigInt (take 32 (hmacSha512 P (secret c) seed)) < curve_n c
          \<and> length (hmacSha512 P (secret c) seed) = 64
          \<and> getPublicKey c (take 32 (hmacSha512 P (secret c) seed)) (Some True) = Inr pub
          \<and> getCurveByName P (name c) = Some rc
          \<and> bytesToBigInt (take 32 (hmacSha512 P (secret c) seed)) < curve_n rc
          \<and> getPublicKey rc (take 32 (hmacSha512 P (secret c) seed)) (Some True) = Inr rpub
        \<longrightarrow> (\<exists>n. createBip39KeyFromSeed P seed c = Inr n))"
proof (intro conjI allI impI)
  assume "\<not> (0 < bytesToBigInt (take 32 (hmacSha512 P (secret c) seed))
        \<and> bytesToBigInt (take 32 (hmacSha512 P (secret c) seed)) < curve_n c)"
  then show "createBip39KeyFromSeed P seed c =
      Inl (Error InvalidPrivateKey
  ''Invalid private key: The private key must larger than 0 and less than the curve order.'')"
    by (rule createBip39KeyFromSeed_out_of_range)
next
  fix n
  assume r: "createBip39KeyFromSeed P seed c = Inr n"
  from createBip39KeyFromSeed_Inr [OF r]
  show "length (hmacSha512 P (secret c) seed) = 64" by blast
  from createBip39KeyFromSeed_Inr [OF r]
  show "privateKeyBytes n = Some (take 32 (hmacSha512 P (secret c) seed))" by auto
  from createBip39KeyFromSeed_Inr [OF r]
  show "chainCodeBytes n = sliceLast 32 (hmacSha512 P (secret c) seed)"
    by (auto simp: sliceLast_def)
  from createBip39KeyFromSeed_Inr [OF r]
  show "0 < bytesToBigInt (take 32 (hmacSha512 P (secret c) seed))" by blast
  from createBip39KeyFromSeed_Inr [OF r]
  show "bytesToBigInt (take 32 (hmacSha512 P (secret c) seed)) < curve_n c" by blast
next
  fix pub rc rpub
  assume "0 < bytesToBigInt (take 32 (hmacSha512 P (secret c) seed))
          \<and> bytesToBigInt (take 32 (hmacSha512 P (secret c) seed)) < curve_n c
          \<and> length (hmacSha512 P (secret c) seed) = 64
          \<and> getPublicKey c (take 32 (hmacSha512 P (secret c) seed)) (Some True) = Inr pub
          \<and> getCurveByName P (name c) = Some rc
          \<and> bytesToBigInt (take 32 (hmacSha512 P (secret c) seed)) < curve_n rc
          \<and> getPublicKey rc (take 32 (hmacSha512 P (secret c) seed)) (Some True) = Inr rpub"
  then show "\<exists>n. createBip39KeyFromSeed P seed c = Inr n"
    by (auto simp: createBip39KeyFromSeed_returns)
qed

theorem createBip39KeyFromSeed_key_material_witness:
  "createBip39KeyFromSeed toy_primitives [] toy_curve =
     Inl (Error InvalidPrivateKey
  ''Invalid private key: The private key must larger than 0 and less than the curve order.'')
   \<and> (\<exists>n. createBip39KeyFromSeed toy_primitives toy_seed toy_curve = Inr n
         \<and> privateKeyBytes n = Some toy_key \<and> chainCodeBytes n = replicate 32 9)"
proof
  have "\<not> (0 < bytesToBigInt (take 32 (hmacSha512 toy_primitives (secret toy_curve) []))
        \<and> bytesToBigInt (take 32 (hmacSha512 toy_primitives (secret toy_curve) []))
            < curve_n toy_curve)"
    by (simp add: toy_hmac_empty)
  with createBip39KeyFromSeed_key_material [of toy_primitives toy_curve "[]"]
  show "createBip39KeyFromSeed toy_primitives [] toy_curve =
     Inl (Error InvalidPrivateKey
  ''Invalid private key: The private key must larger than 0 and less than the curve order.'')"
    by blast
next
  note t = createBip39KeyFromSeed_key_material [of toy_primitives toy_curve toy_seed]
  from t toy_range toy_hmac_length toy_compressed toy_registered
  obtain n where n: "createBip39KeyFromSeed toy_primitives toy_seed toy_curve = Inr n"
    by blast
  with t have "privateKeyBytes n =
        Some (take 32 (hmacSha512 toy_primitives (secret toy_curve) toy_seed))"
    and "chainCodeBytes n = sliceLast 32 (hmacSha512 toy_primitives (secret toy_curve) toy_seed)"
    by blast+
  then have "privateKeyBytes n = Some toy_key" and "chainCodeBytes n = replicate 32 9"
    by (simp_all only: toy_hmac toy_hmac_parts)
  with n show "\<exists>n. createBip39KeyFromSeed toy_primitives toy_seed toy_curve = Inr n
         \<and> privateKeyBytes n = Some toy_key \<and> chainCodeBytes n = replicate 32 9"
    by blast
qed

lemma three_zeros: "replicate 3 (0 :: 8 word) = [0, 0, 0]"
  by (simp add: numeral_3_eq_3)

lemma rogue_root:
  "createBip39KeyFromSeed toy_primitives toy_seed rogue_curve =
     Inr \<lparr> depth = 0, masterFingerprint = Some 50331648,
           parentFingerprint = 0, index = 0, curveName = ''secp256k1'',
           privateKeyBytes = Some toy_key,
           compressedPublicKeyBytes = 2 # toy_key,
           chainCodeBytes = replicate 32 9,
           fingerprint = 33554432 \<rparr>"
proof -
  have hmac: "hmacSha512 toy_primitives (secret rogue_curve) toy_seed =
      toy_key @ replicate 32 9"
    by (simp add: toy_primitives_def toy_key_def toy_seed_def)
  have fp: "getFingerprint toy_primitives (3 # toy_key) = 50331648"
    "getFingerprint toy_primitives (2 # toy_key) = 33554432"
    by (simp_all add: toy_primitives_def toy_key_def three_zeros) (simp_all add: bytesToBigInt_def)
  have rogue: "curve_n rogue_curve = 251" "name rogue_curve = ''secp256k1''"
    "getPublicKey rogue_curve toy_key (Some True) = Inr (3 # toy_key)"
    by (simp_all add: rogue_curve_def toy_curve_def)
  have registered: "getCurveByName toy_primitives ''secp256k1'' = Some toy_curve"
    by (simp add: toy_primitives_def)
  have toy: "curve_n toy_curve = 251"
    "getPublicKey toy_curve toy_key (Some True) = Inr (2 # toy_key)"
    by (simp_all add: toy_curve_def)
  have len: "length toy_key = 32" by (simp add: toy_key_def)
  show ?thesis
    unfolding createBip39KeyFromSeed_def fromExtendedKey_def Let_def BYTES_KEY_LENGTH_def hmac
      toy_hmac_parts rogue registered
    by (simp add: toy_key_int toy fp len)
qed

text \<open>
  C5, as stated, fails: the master fingerprint is computed from the public key of the
  curve object passed in, and the node is built from the curve registered under that
  object's name. For a curve object that computes another public key than the
  registered curve of the same name, the master fingerprint of the returned root is
  not the fingerprint of the root.
\<close>

theorem createBip39KeyFromSeed_foreign_curve_counterexample:
  "createBip39KeyFromSeed toy_primitives toy_seed rogue_curve =
     Inr \<lparr> depth = 0, masterFingerprint = Some 50331648,
           parentFingerprint = 0, index = 0, curveName = ''secp256k1'',
           privateKeyBytes = Some toy_key,
           compressedPublicKeyBytes = 2 # toy_key,
           chainCodeBytes = replicate 32 9,
           fingerprint = 33554432 \<rparr>
   \<and> Some (50331648 :: nat) \<noteq> Some 33554432"
  by (simp add: rogue_root)

text \<open>
  C5, amended: every node that \<^verbatim>\<open>createBip39KeyFromSeed\<close> returns is a root: depth 0,
  parent fingerprint 0 and index 0. Its fingerprint is the hash of its own public key,
  and its master fingerprint is the hash of the public key that the curve object
  passed in computes for the node's private key. The two are equal, so the master
  fingerprint is the fingerprint of the node itself, when the curve object passed in
  is the one registered under its name.
\<close>

theorem createBip39KeyFromSeed_root:
  assumes "createBip39KeyFromSeed P seed c = Inr n"
  shows "depth n = 0 \<and> parentFingerprint n = 0 \<and> index n = 0
       \<and> fingerprint n = getFingerprint P (compressedPublicKeyBytes n)
       \<and> (\<exists>pk pub. privateKeyBytes n = Some pk
            \<and> getPublicKey c pk (Some True) = Inr pub
            \<and> masterFingerprint n = Some (getFingerprint P pub))
       \<and> (getCurveByName P (name c) = Some c \<longrightarrow> masterFingerprint n = Some (fingerprint n))"
  using createBip39KeyFromSeed_Inr [OF assms] by auto

lemma toy_root:
  "createBip39KeyFromSeed toy_primitives toy_seed toy_curve =
     Inr \<lparr> depth = 0, masterFingerprint = Some (getFingerprint toy_primitives (2 # toy_key)),
           parentFingerprint = 0, index = 0, curveName = name toy_curve,
           privateKeyBytes = Some toy_key,
           compressedPublicKeyBytes = 2 # toy_key,
           chainCodeBytes = replicate 32 9,
           fingerprint = getFingerprint toy_primitives (2 # toy_key) \<rparr>"
  using createBip39KeyFromSeed_returns [OF toy_range toy_hmac_length toy_compressed
      toy_registered toy_range(2) toy_compressed]
  by (simp only: toy_hmac toy_hmac_parts)

theorem createBip39KeyFromSeed_root_witness:
  "\<exists>n. createBip39KeyFromSeed toy_primitives toy_seed toy_curve = Inr n
     \<and> depth n = 0 \<and> parentFingerprint n = 0 \<and> index n = 0
     \<and> fingerprint n = getFingerprint toy_primitives (compressedPublicKeyBytes n)
     \<and> masterFingerprint n = Some (fingerprint n)"
  using createBip39KeyFromSeed_root [OF toy_root] toy_root toy_registered by blast

text \<open>
  C9: when the first 32 bytes of the HMAC output are an integer strictly between 0 and
  the curve order, the two implementations of \<^verbatim>\<open>createBip39KeyFromSeed\<close> agree: whenever
  both return, the private key and the chain code of the tuple are those of the node;
  and both do return, with these values, when the HMAC output has 64 bytes, the
  provider computes the public keys, and the curve registered under the name of the
  curve accepts the key and computes its public key.
\<close>

theorem createBip39KeyFromSeed_implementations_agree:
  assumes "0 < bytesToBigInt (take 32 (hmacSha512 P (secret c) seed))"
    and "bytesToBigInt (take 32 (hmacSha512 P (secret c) seed)) < curve_n c"
  shows "(\<forall>pk pub cc n. createBip39KeyFromSeed_tuple P seed c = Inr (pk, pub, cc)
            \<and> createBip39KeyFromSeed P seed c = Inr n
          \<longrightarrow> privateKeyBytes n = Some pk \<and> chainCodeBytes n = cc)
       \<and> (\<forall>pub1 pub2 rc rpub. length (hmacSha512 P (secret c) seed) = 64
            \<and> getPublicKey c (take 32 (hmacSha512 P (secret c) seed)) None = Inr pub1
            \<and> getPublicKey c (take 32 (hmacSha512 P (secret c) seed)) (Some True) = Inr pub2
            \<and> getCurveByName P (name c) = Some rc
            \<and> bytesToBigInt (take 32 (hmacSha512 P (secret c) seed)) < curve_n rc
            \<and> getPublicKey rc (take 32 (hmacSha512 P (secret c) seed)) (Some True) = Inr rpub
          \<longrightarrow> (\<exists>n. createBip39KeyFromSeed_tuple P seed c =
                     Inr (take 32 (hmacSha512 P (secret c) seed), pub1,
                          drop 32 (hmacSha512 P (secret c) seed))
                 \<and> createBip39KeyFromSeed P seed c = Inr n
                 \<and> privateKeyBytes n = Some (take 32 (hmacSha512 P (secret c) seed))
                 \<and> chainCodeBytes n = drop 32 (hmacSha512 P (secret c) seed)))"
proof (intro conjI allI impI)
  fix pk pub cc n
  assume a: "createBip39KeyFromSeed_tuple P seed c = Inr (pk, pub, cc)
            \<and> createBip39KeyFromSeed P seed c = Inr n"
  then have t: "pk = take 32 (hmacSha512 P (secret c) seed)"
      "cc = take 32 (drop 32 (hmacSha512 P (secret c) seed))"
    by (auto simp: createBip39KeyFromSeed_tuple_def Let_def split: sum.splits)
  from a have r: "createBip39KeyFromSeed P seed c = Inr n" by simp
  from createBip39KeyFromSeed_Inr [OF r] t
  show "privateKeyBytes n = Some pk" by auto
  from createBip39KeyFromSeed_Inr [OF r] t
  show "chainCodeBytes n = cc" by auto
next
  fix pub1 pub2 rc rpub
  assume a: "length (hmacSha512 P (secret c) seed) = 64
            \<and> getPublicKey c (take 32 (hmacSha512 P (secret c) seed)) None = Inr pub1
            \<and> getPublicKey c (take 32 (hmacSha512 P (secret c) seed)) (Some True) = Inr pub2
            \<and> getCurveByName P (name c) = Some rc
            \<and> bytesToBigInt (take 32 (hmacSha512 P (secret c) seed)) < curve_n rc
            \<and> getPublicKey rc (take 32 (hmacSha512 P (secret c) seed)) (Some True) = Inr rpub"
  then have "createBip39KeyFromSeed_tuple P seed c =
      Inr (take 32 (hmacSha512 P (secret c) seed), pub1,
           drop 32 (hmacSha512 P (secret c) seed))"
    by (simp add: createBip39KeyFromSeed_tuple_def Let_def)
  moreover from a assms have "createBip39KeyFromSeed P seed c =
     Inr \<lparr> depth = 0, masterFingerprint = Some (getFingerprint P pub2),
           parentFingerprint = 0, index = 0, curveName = name c,
           privateKeyBytes = Some (take 32 (hmacSha512 P (secret c) seed)),
           compressedPublicKeyBytes = rpub,
           chainCodeBytes = drop 32 (hmacSha512 P (secret c) seed),
           fingerprint = getFingerprint P rpub \<rparr>"
    by (intro createBip39KeyFromSeed_returns [where rc = rc]) auto
  ultimately show "\<exists>n. createBip39KeyFromSeed_tuple P seed c =
                     Inr (take 32 (hmacSha512 P (secret c) seed), pub1,
                          drop 32 (hmacSha512 P (secret c) seed))
                 \<and> createBip39KeyFromSeed P seed c = Inr n
                 \<and> privateKeyBytes n = Some (take 32 (hmacSha512 P (secret c) seed))
                 \<and> chainCodeBytes n = drop 32 (hmacSha512 P (secret c) seed)"
    by simp
qed

theorem createBip39KeyFromSeed_implementations_agree_witness:
  "createBip39KeyFromSeed_tuple toy_primitives toy_seed toy_curve =
     Inr (toy_key, 4 # toy_key @ toy_key, replicate 32 9)
   \<and> (\<exists>n. createBip39KeyFromSeed toy_primitives toy_seed toy_curve = Inr n
         \<and> privateKeyBytes n = Some toy_key \<and> chainCodeBytes n = replicate 32 9)"
proof -
  note t = createBip39KeyFromSeed_implementations_agree [OF toy_range]
  from t toy_hmac_length toy_uncompressed toy_compressed toy_registered toy_range(2)
  have "\<exists>n. createBip39KeyFromSeed_tuple toy_primitives toy_seed toy_curve =
            Inr (take 32 (hmacSha512 toy_primitives (secret toy_curve) toy_seed),
                 4 # toy_key @ toy_key,
                 drop 32 (hmacSha512 toy_primitives (secret toy_curve) toy_seed))
        \<and> createBip39KeyFromSeed toy_primitives toy_seed toy_curve = Inr n
        \<and> privateKeyBytes n =
            Some (take 32 (hmacSha512 toy_primitives (secret toy_curve) toy_seed))
        \<and> chainCodeBytes n = drop 32 (hmacSha512 toy_primitives (secret toy_curve) toy_seed)"
    by blast
  then show ?thesis
    by (simp only: toy_hmac toy_hmac_parts) blast
qed

text \<open>
  C10: \<^verbatim>\<open>deriveChildKey\<close> of the BIP-39 deriver depends on the path and the curve only:
  two argument records with the same path and curve give the same result, whatever
  their parent nodes and networks are.
\<close>

theorem bip39_deriveChildKey_ignores_node:
  assumes "path a = path b" and "curve a = curve b"
  shows "bip39_deriveChildKey P a = bip39_deriveChildKey P b"
  using assms by (simp add: bip39_deriveChildKey_def split: sum.splits)

theorem bip39_deriveChildKey_ignores_node_witness:
  "node \<lparr> path = PathString ''abc'', curve = toy_curve, node = None, network = None \<rparr>
     \<noteq> node \<lparr> path = PathString ''abc'', curve = toy_curve, node = Some toy_parent,
              network = Some ''testnet'' \<rparr>
   \<and> bip39_deriveChildKey toy_primitives
       \<lparr> path = PathString ''abc'', curve = toy_curve, node = None, network = None \<rparr> =
     bip39_deriveChildKey toy_primitives
       \<lparr> path = PathString ''abc'', curve = toy_curve, node = Some toy_parent,
         network = Some ''testnet'' \<rparr>"
proof
  show "node \<lparr> path = PathString ''abc'', curve = toy_curve, node = None, network = None \<rparr>
     \<noteq> node \<lparr> path = PathString ''abc'', curve = toy_curve, node = Some toy_parent,
              network = Some ''testnet'' \<rparr>"
    by simp
  show "bip39_deriveChildKey toy_primitives
       \<lparr> path = PathString ''abc'', curve = toy_curve, node = None, network = None \<rparr> =
     bip39_deriveChildKey toy_primitives
       \<lparr> path = PathString ''abc'', curve = toy_curve, node = Some toy_parent,
         network = Some ''testnet'' \<rparr>"
    by (rule bip39_deriveChildKey_ignores_node) simp_all
qed

end
